theory Spec2Isabelle
  imports Main "HOL-Library.AList"
begin

unbundle bit_operations_syntax

section \<open>Records of the tracking store\<close>

text \<open>
  Python exceptions are values. Every subscript of \<open>None\<close>, every missing dictionary
  key and every failing library call of the modelled functions is a branch that
  returns one of them.
\<close>

datatype exn =
    TypeError string
  | KeyError string
  | IndexError string
  | ValueError string
  | NameError string
  | OSError string
  | Fault string

text \<open>An entity link, \<^verbatim>\<open>{"type": ..., "name": ..., "id": ...}\<close>.\<close>

record entity_link =
  link_type :: string
  link_name :: string
  link_id :: int

text \<open>
  A Task record, with the fields that \<^verbatim>\<open>FIELDS["Task"]\<close> names. The team lead and the
  supervisor are entity links that may be unset (\<open>None\<close>); only their ids are read.
\<close>

record task =
  task_id :: int
  task_project :: string
  task_link :: entity_link
  task_pipelineStep :: string
  task_status :: string
  task_taskName :: string
  task_splitType :: string
  task_teamLead :: "int option"
  task_supervisor :: "int option"
  task_clientVersion :: "int option"

record version =
  ver_id :: int
  ver_sg_task :: "int option"
  ver_status :: string
  ver_versionName :: string
  ver_link :: "string \<times> int"

text \<open>A Shot or Asset record.\<close>

record entity =
  ent_type :: string
  ent_id :: int
  ent_code :: string
  ent_project :: string
  ent_assetType :: string

text \<open>A TechFixData record (\<^verbatim>\<open>CustomEntity04\<close>).\<close>

record techfix =
  tf_id :: int
  tf_task :: int
  tf_from :: "int option"
  tf_project :: int
  tf_status :: string

text \<open>
  A field holding a string-encoded literal: unset (\<open>None\<close> or the empty string), a text
  that \<^verbatim>\<open>ast.literal_eval\<close> rejects, or the value it parses to.
\<close>

datatype 'a literal_field = Unset | Malformed | Literal 'a

text \<open>One file slot of a \<^verbatim>\<open>fileConfig\<close>: its work-area key, its filter pattern, the
  mandatory flag and, per publish tag, the key of the destination template.\<close>

record slot =
  slot_workarea :: string
  slot_filter :: string
  slot_mandatory :: bool
  slot_tags :: "(string \<times> string) list"

type_synonym status_map = "(string \<times> string) list"
type_synonym status_config = "(string \<times> status_map) list"
type_synonym file_configs = "(string \<times> slot) list"
type_synonym task_file_configs = "(string \<times> file_configs) list"

text \<open>A transition configuration record (\<^verbatim>\<open>CustomEntity24\<close>). \<open>ce_templates\<close> holds the
  path-template fields of the record, keyed by work-area key.\<close>

record ce24 =
  ce_entityType :: string
  ce_pathSheetName :: string
  ce_taskName :: string
  ce_statusConfig :: "status_config literal_field"
  ce_fileConfig :: "task_file_configs literal_field"
  ce_qcProcess :: bool
  ce_templates :: "(string \<times> string) list"

text \<open>The payload of a PublishedFile create request (\<^verbatim>\<open>get_published_file_data\<close>).\<close>

record published_file =
  pf_project :: int
  pf_name :: string
  pf_code :: string
  pf_sg_status_list :: string
  pf_version_number :: int
  pf_published_file_type :: "(int \<times> string) option"
  pf_entity :: "string \<times> int"
  pf_task :: int
  pf_version :: "version option"
  pf_sg_absolute_path :: string

text \<open>
  A request of a batch. The data of every update request of these modules is the
  one-entry dictionary \<^verbatim>\<open>{FIELDS["Task"]["status"]: value}\<close>; the request keeps the
  value, which is \<open>None\<close> when \<^verbatim>\<open>dict.get\<close> found nothing.
\<close>

datatype batch_op =
    Update string int "string option"
  | Create string published_file

text \<open>A call of the store's API made by the run.\<close>

datatype sg_call = Find string | Batch "batch_op list"

fun is_batch :: "sg_call \<Rightarrow> bool" where
  "is_batch (Batch ops) = True"
| "is_batch (Find t) = False"

text \<open>The store: its tables, what a raw \<^verbatim>\<open>find\<close> on Version gives (the records or the
  fault it raises), and what \<^verbatim>\<open>batch\<close> answers (\<open>Some e\<close> when it raises).\<close>

record sg_store =
  sg_entities :: "entity list"
  sg_tasks :: "task list"
  sg_techfixes :: "techfix list"
  sg_versions :: "exn + version list"
  sg_batch :: "batch_op list \<Rightarrow> exn option"

text \<open>The section of \<^verbatim>\<open>action_menu_config.json\<close> of the running action.\<close>

record action_config =
  cfg_validRole :: "string list"
  cfg_validLeadStatus :: "string list"
  cfg_validLeadVerStatus :: "string list"
  cfg_validSupStatus :: "string list"
  cfg_validSupVerStatus :: "string list"
  cfg_clientQcSteps :: "string list"
  cfg_publishTags :: "string list"
  cfg_ignores :: "string list"

record human_user =
  user_id :: int
  user_permission :: string

text \<open>One row of the report. The reason is a text, or the traceback of an exception.\<close>

datatype reason = Text string | Traceback exn

record report_dict =
  rd_item :: string
  rd_Task :: string
  rd_Success :: string
  rd_Reason :: reason

text \<open>The locals a run carries across its items, and the calls it has made so far.\<close>

record run_state =
  report_list :: "report_dict list"
  batch_data :: "batch_op list"
  sg_calls :: "sg_call list"

text \<open>How the body of the item loop ends: an exception leaves the loop, anything else
  (falling off the end, or \<^verbatim>\<open>continue\<close>) goes on with the next item.\<close>

datatype flow = Raised exn | Next

text \<open>A \<^verbatim>\<open>for\<close> loop whose body may raise: the loop stops at the first exception, with
  the state as the body left it.\<close>

fun for_each :: "('a \<Rightarrow> 's \<Rightarrow> flow \<times> 's) \<Rightarrow> 'a list \<Rightarrow> 's \<Rightarrow> flow \<times> 's" where
  "for_each body [] s = (Next, s)"
| "for_each body (x # xs) s =
     (case body x s of
        (Raised e, s') \<Rightarrow> (Raised e, s')
      | (Next, s') \<Rightarrow> for_each body xs s')"

section \<open>Helpers shared by the modules\<close>

definition endswith :: "string \<Rightarrow> string \<Rightarrow> bool" where
  "endswith s suf =
     (length suf \<le> length s \<and> drop (length s - length suf) s = suf)"

text \<open>\<^verbatim>\<open>str(task_name).split("_", maxsplit=1)[0]\<close>\<close>

definition split_first :: "string \<Rightarrow> string" where
  "split_first s = takeWhile (\<lambda>c. c \<noteq> CHR ''_'') s"

text \<open>The techfix flag and the task name the configuration is keyed by.\<close>

definition config_task_name :: "string \<Rightarrow> string \<Rightarrow> bool \<times> string" where
  "config_task_name task_name split_type =
     (let is_techfix = endswith task_name ''_TechFix'';
          n1 = (if is_techfix then split_first task_name else task_name);
          n2 = (if split_type = ''SPLIT'' then split_first task_name else n1)
      in (is_techfix, n2))"

text \<open>The list comprehension that selects the configuration records of a task.\<close>

definition match_task_config :: "ce24 list \<Rightarrow> task \<Rightarrow> string \<Rightarrow> ce24 list" where
  "match_task_config cfgs t cname =
     filter (\<lambda>i. ce_entityType i = link_type (task_link t)
               \<and> ce_pathSheetName i = task_pipelineStep t
               \<and> ce_taskName i = cname) cfgs"

text \<open>
  Modelled from the spec: \<^verbatim>\<open>sg_global_utils.get_entity_data\<close> is not among the sources.
  It is the Record Store's \<^verbatim>\<open>find(entityType, filters, fields)\<close> of section 6, whose
  filters are conjunctive lists of (field, operator, value) triples. Each query below is
  the filter list of one call site.
\<close>

definition find_techfix_of_task :: "sg_store \<Rightarrow> int \<Rightarrow> int \<Rightarrow> techfix list" where
  "find_techfix_of_task sg tid pid =
     filter (\<lambda>r. tf_task r = tid \<and> tf_project r = pid) (sg_techfixes sg)"

definition append_report ::
  "report_dict \<Rightarrow> 'a run_state_scheme \<Rightarrow> 'a run_state_scheme" where
  "append_report rd st = st\<lparr>report_list := report_list st @ [rd]\<rparr>"

definition append_batch ::
  "batch_op list \<Rightarrow> 'a run_state_scheme \<Rightarrow> 'a run_state_scheme" where
  "append_batch ops st = st\<lparr>batch_data := batch_data st @ ops\<rparr>"

definition called :: "sg_call \<Rightarrow> 'a run_state_scheme \<Rightarrow> 'a run_state_scheme" where
  "called c st = st\<lparr>sg_calls := sg_calls st @ [c]\<rparr>"

definition none_subscript :: exn where
  "none_subscript = TypeError ''NoneType object is not subscriptable''"

section \<open>review.py: Review.update_version\<close>

text \<open>The attributes of a \<^verbatim>\<open>Review\<close> instance that \<^verbatim>\<open>update_version\<close> reads.
  \<^verbatim>\<open>sg_global_utils.validate_role_assignments\<close> is not among the sources; it is a
  parameter.\<close>

record review =
  rv_sg_obj :: sg_store
  rv_action :: string
  rv_project_id :: int
  rv_config_data :: action_config
  rv_valid_roles :: "string list"
  rv_current_user :: human_user
  rv_task_config_data :: "ce24 list"
  rv_versions :: "(int \<times> version) list"
  rv_tasks :: "(int \<times> task) list"
  rv_validate_role_assignments :: "task \<Rightarrow> string list \<Rightarrow> bool \<times> string"

definition lead_roles :: "string list" where
  "lead_roles = [''Lead'', ''Team Lead'', ''Admin'', ''Manager'']"

definition sup_roles :: "string list" where
  "sup_roles = [''Supervisor'', ''Admin'', ''Team Lead'', ''Lead'', ''Manager'']"

text \<open>\<^verbatim>\<open>self.current_user["id"] == task[field]["id"]\<close>: subscripting an unset link raises.\<close>

definition user_is :: "int \<Rightarrow> int option \<Rightarrow> exn + bool" where
  "user_is uid l = (case l of None \<Rightarrow> Inl none_subscript | Some i \<Rightarrow> Inr (uid = i))"

text \<open>The condition of the \<^verbatim>\<open>if\<close> (lead path) and of the \<^verbatim>\<open>elif\<close> (supervisor path);
  \<^verbatim>\<open>and\<close> evaluates its right operand only when the left one holds.\<close>

definition lead_path :: "human_user \<Rightarrow> task \<Rightarrow> exn + bool" where
  "lead_path u t =
     (if user_permission u \<in> set lead_roles then user_is (user_id u) (task_teamLead t)
      else Inr False)"

definition sup_path :: "human_user \<Rightarrow> task \<Rightarrow> exn + bool" where
  "sup_path u t =
     (if user_permission u \<in> set sup_roles then user_is (user_id u) (task_supervisor t)
      else Inr False)"

datatype verdict = Allowed | Denied string

definition lead_checks :: "action_config \<Rightarrow> string \<Rightarrow> string \<Rightarrow> verdict" where
  "lead_checks cfg t_status v_status =
     (if t_status \<notin> set (cfg_validLeadStatus cfg)
      then Denied ''Task status is not valid for the Lead review''
      else if v_status \<notin> set (cfg_validLeadVerStatus cfg)
      then Denied ''Version status is not valid for the Lead review''
      else Allowed)"

definition sup_checks :: "action_config \<Rightarrow> string \<Rightarrow> string \<Rightarrow> verdict" where
  "sup_checks cfg t_status v_status =
     (if t_status \<notin> set (cfg_validSupStatus cfg)
      then Denied ''Task status is not valid for the Supervisor review''
      else if v_status \<notin> set (cfg_validSupVerStatus cfg)
      then Denied ''Version status is not valid for the Supervisor review''
      else Allowed)"

definition not_authorized :: string where
  "not_authorized =
     ''User is not valid to review the task, '' @
     ''Please check the Team Lead or Supervisor field and update accordingly!!''"

text \<open>The \<^verbatim>\<open>if\<close> / \<^verbatim>\<open>elif\<close> / \<^verbatim>\<open>else\<close> chain of lines 320 to 367.\<close>

definition review_permission ::
  "action_config \<Rightarrow> human_user \<Rightarrow> task \<Rightarrow> string \<Rightarrow> exn + verdict" where
  "review_permission cfg u t v_status =
     (case lead_path u t of
        Inl e \<Rightarrow> Inl e
      | Inr True \<Rightarrow> Inr (lead_checks cfg (task_status t) v_status)
      | Inr False \<Rightarrow>
          (case sup_path u t of
             Inl e \<Rightarrow> Inl e
           | Inr True \<Rightarrow> Inr (sup_checks cfg (task_status t) v_status)
           | Inr False \<Rightarrow> Inr (Denied not_authorized)))"

text \<open>\<^verbatim>\<open>ast.literal_eval(field)\<close> with no guard before it, as \<^verbatim>\<open>update_version\<close> calls it.\<close>

definition literal_eval :: "'a literal_field \<Rightarrow> exn + 'a" where
  "literal_eval f =
     (case f of
        Unset \<Rightarrow> Inl (ValueError ''malformed node or string'')
      | Malformed \<Rightarrow> Inl (ValueError ''malformed node or string'')
      | Literal v \<Rightarrow> Inr v)"

text \<open>Lines 415 to 433: the Task and the Version update, and the row of a success.\<close>

definition review_queue ::
  "int \<Rightarrow> task \<Rightarrow> string option \<Rightarrow> report_dict \<Rightarrow> run_state \<Rightarrow> flow \<times> run_state" where
  "review_queue version_id t data_to_update rd st =
     (Next,
      append_report (rd\<lparr>rd_Success := ''YES''\<rparr>)
        (append_batch [Update ''Task'' (task_id t) data_to_update,
                       Update ''Version'' version_id data_to_update] st))"

text \<open>Lines 369 to 433: the new status is \<^verbatim>\<open>status_config.get(task_status)\<close>; a techfix
  task needs its TechFixData record, whose update is queued first.\<close>

definition review_update ::
  "review \<Rightarrow> int \<Rightarrow> task \<Rightarrow> bool \<Rightarrow> status_map \<Rightarrow> report_dict \<Rightarrow> run_state
     \<Rightarrow> flow \<times> run_state" where
  "review_update self version_id t is_techfix status_map rd st =
     (let data_to_update = map_of status_map (task_status t) in
      if is_techfix then
        (let tech_data_entry =
               find_techfix_of_task (rv_sg_obj self) (task_id t) (rv_project_id self);
             st1 = called (Find ''CustomEntity04'') st
         in if tech_data_entry = [] then
              (Next,
               append_report
                 (rd\<lparr>rd_Reason :=
                    Text ''Selected Task TechFixData Record is not available in SG''\<rparr>) st1)
            else
              review_queue version_id t data_to_update rd
                (append_batch
                   [Update ''CustomEntity04'' (tf_id (last tech_data_entry)) data_to_update]
                   st1))
      else review_queue version_id t data_to_update rd st)"

text \<open>Lines 300 to 367: role assignments, then the lead or supervisor checks.\<close>

definition review_authorize ::
  "review \<Rightarrow> int \<Rightarrow> version \<Rightarrow> task \<Rightarrow> bool \<Rightarrow> status_map \<Rightarrow> report_dict \<Rightarrow> run_state
     \<Rightarrow> flow \<times> run_state" where
  "review_authorize self version_id v t is_techfix status_map rd st =
     (case rv_validate_role_assignments self t (rv_valid_roles self) of
        (valid_role_assignments, valid_role_assignment_msg) \<Rightarrow>
          if \<not> valid_role_assignments then
            (Next, append_report (rd\<lparr>rd_Reason := Text valid_role_assignment_msg\<rparr>) st)
          else
            (case review_permission (rv_config_data self) (rv_current_user self) t
                    (ver_status v) of
               Inl e \<Rightarrow> (Raised e, st)
             | Inr (Denied r) \<Rightarrow> (Next, append_report (rd\<lparr>rd_Reason := Text r\<rparr>) st)
             | Inr Allowed \<Rightarrow> review_update self version_id t is_techfix status_map rd st))"

definition config_missing :: string where
  "config_missing = ''Valid config is not available in SG, please reach out to SG team!''"

text \<open>Lines 263 to 298: the configuration of the task and the status map of the action.\<close>

definition review_task ::
  "review \<Rightarrow> int \<Rightarrow> version \<Rightarrow> task \<Rightarrow> run_state \<Rightarrow> flow \<times> run_state" where
  "review_task self version_id v t st =
     (case config_task_name (task_taskName t) (task_splitType t) of
        (is_techfix, cname) \<Rightarrow>
          (let rd = \<lparr>rd_item = ver_versionName v, rd_Task = task_pipelineStep t,
                     rd_Success = ''NO'', rd_Reason = Text ''''\<rparr>;
               task_config_data = match_task_config (rv_task_config_data self) t cname
           in if task_config_data = [] then
                (Next, append_report (rd\<lparr>rd_Reason := Text config_missing\<rparr>) st)
              else
                (case literal_eval (ce_statusConfig (last task_config_data)) of
                   Inl e \<Rightarrow> (Raised e, st)
                 | Inr status_config \<Rightarrow>
                     if status_config = [] then
                       (Next,
                        append_report
                          (rd\<lparr>rd_Reason := Text
                             (''Valid status not updated in SG Status Config, '' @
                              ''please reach out to SG team!'')\<rparr>) st)
                     else
                       (case map_of status_config (rv_action self) of
                          None \<Rightarrow> (Raised (KeyError (rv_action self)), st)
                        | Some status_map \<Rightarrow>
                            review_authorize self version_id v t is_techfix status_map
                              rd st))))"

text \<open>The body of the loop over \<^verbatim>\<open>self.versions.items()\<close>, from line 236.\<close>

definition review_item :: "review \<Rightarrow> int \<times> version \<Rightarrow> run_state \<Rightarrow> flow \<times> run_state" where
  "review_item self item st =
     (case item of
        (version_id, v) \<Rightarrow>
          (case ver_sg_task v of
             None \<Rightarrow> (Raised none_subscript, st)
           | Some ver_task_id \<Rightarrow>
               (case map_of (rv_tasks self) ver_task_id of
                  None \<Rightarrow> (Raised none_subscript, st)
                | Some t \<Rightarrow> review_task self version_id v t st)))"

text \<open>The row that replaces the report when the run raises.\<close>

definition fatal_report :: "exn \<Rightarrow> report_dict list" where
  "fatal_report e =
     [\<lparr>rd_item = '''', rd_Task = '''', rd_Success = ''NO'', rd_Reason = Traceback e\<rparr>]"

text \<open>\<^verbatim>\<open>if batch_data: self.sg_obj.batch(batch_data)\<close>, after the loop and inside the
  \<^verbatim>\<open>try\<close>. The result is the report and the calls made.\<close>

definition flush ::
  "sg_store \<Rightarrow> 'a run_state_scheme \<Rightarrow> report_dict list \<times> sg_call list" where
  "flush sg st =
     (if batch_data st \<noteq> [] then
        (case sg_batch sg (batch_data st) of
           Some e \<Rightarrow> (fatal_report e, sg_calls st @ [Batch (batch_data st)])
         | None \<Rightarrow> (report_list st, sg_calls st @ [Batch (batch_data st)]))
      else (report_list st, sg_calls st))"

definition init_state :: run_state where
  "init_state = \<lparr>report_list = [], batch_data = [], sg_calls = []\<rparr>"

definition update_version :: "review \<Rightarrow> report_dict list \<times> sg_call list" where
  "update_version self =
     (case for_each (review_item self) (rv_versions self) init_state of
        (Raised e, st) \<Rightarrow> (fatal_report e, sg_calls st)
      | (Next, st) \<Rightarrow> flush (rv_sg_obj self) st)"

section \<open>sg-file-operations: copy\<close>

text \<open>
  The file system is a state \<open>'fs\<close>. The calls of \<^verbatim>\<open>pathlib\<close>, \<^verbatim>\<open>os\<close>, \<^verbatim>\<open>shutil\<close> and
  \<^verbatim>\<open>win32wnet\<close> that the module makes are parameters: a query answers from the state or
  raises, a command returns the new state together with the exception it raised, if any
  (what it did before failing stays done).
\<close>

record 'fs os_api =
  path_exists :: "string \<Rightarrow> 'fs \<Rightarrow> exn + bool"
  path_is_file :: "string \<Rightarrow> 'fs \<Rightarrow> exn + bool"
  path_suffix :: "string \<Rightarrow> string"
  path_parent :: "string \<Rightarrow> string"
  path_mkdir :: "string \<Rightarrow> 'fs \<Rightarrow> exn option \<times> 'fs"
  path_stat_mode :: "string \<Rightarrow> 'fs \<Rightarrow> exn + nat"
  path_chmod :: "string \<Rightarrow> nat \<Rightarrow> 'fs \<Rightarrow> exn option \<times> 'fs"
  os_access_w :: "string \<Rightarrow> 'fs \<Rightarrow> bool"
  os_path_exists :: "string \<Rightarrow> 'fs \<Rightarrow> bool"
  os_path_isfile :: "string \<Rightarrow> 'fs \<Rightarrow> bool"
  os_path_basename :: "string \<Rightarrow> string"
  os_path_splitdrive :: "string \<Rightarrow> string \<times> string"
  os_path_join :: "string \<Rightarrow> string \<Rightarrow> string"
  shutil_copy :: "bool \<Rightarrow> string \<Rightarrow> string \<Rightarrow> 'fs \<Rightarrow> exn option \<times> 'fs"
  shutil_rmtree :: "string \<Rightarrow> 'fs \<Rightarrow> exn option \<times> 'fs"
  shutil_copytree :: "string \<Rightarrow> string \<Rightarrow> string list option \<Rightarrow> 'fs \<Rightarrow> exn option \<times> 'fs"
  WNetGetUniversalName :: "string \<Rightarrow> exn + string"

text \<open>\<^verbatim>\<open>str(e)\<close>\<close>

fun exn_str :: "exn \<Rightarrow> string" where
  "exn_str (TypeError m) = m"
| "exn_str (KeyError k) = CHR 0x27 # k @ [CHR 0x27]"
| "exn_str (IndexError m) = m"
| "exn_str (ValueError m) = m"
| "exn_str (NameError m) = m"
| "exn_str (OSError m) = m"
| "exn_str (Fault m) = m"

text \<open>\<^verbatim>\<open>s.replace("\\", "/")\<close> and \<^verbatim>\<open>s.lstrip("/")\<close>\<close>

definition slashes :: "string \<Rightarrow> string" where
  "slashes s = map (\<lambda>c. if c = CHR 0x5C then CHR ''/'' else c) s"

definition lstrip_slash :: "string \<Rightarrow> string" where
  "lstrip_slash s = dropWhile (\<lambda>c. c = CHR ''/'') s"

text \<open>The \<^verbatim>\<open>except\<close> branch of \<^verbatim>\<open>convert_to_unc\<close>, on the path as it is when the exception
  is raised.\<close>

definition unc_fallback :: "'fs os_api \<Rightarrow> string \<Rightarrow> string" where
  "unc_fallback os path =
     (case os_path_splitdrive os path of
        (drive, tail) \<Rightarrow>
          if drive = ''J:''
          then slashes (os_path_join os ''//saffstorage03/saffstoran/Disney/MMCH''
                          (lstrip_slash tail))
          else path)"

definition convert_to_unc :: "'fs os_api \<Rightarrow> string \<Rightarrow> string" where
  "convert_to_unc os path =
     (if length path < 2 then unc_fallback os path
      else if path ! 1 = CHR '':'' \<and> path ! 0 \<notin> set ''cCdD'' then
        (let path1 = slashes path in
         case os_path_splitdrive os path1 of
           (drive, tail) \<Rightarrow>
             if drive = [] then unc_fallback os path1
             else
               (case WNetGetUniversalName os drive of
                  Inl e \<Rightarrow> unc_fallback os path1
                | Inr unc_drive \<Rightarrow>
                    slashes (os_path_join os (slashes unc_drive) (lstrip_slash tail))))
      else path)"

text \<open>The locals of \<^verbatim>\<open>copy\<close> that the body assigns, and the file system.\<close>

record 'fs copy_locals =
  cl_status :: bool
  cl_msg :: string
  cl_original_mode :: "nat option"
  cl_fs :: 'fs

text \<open>The keys of \<^verbatim>\<open>locals()\<close> at line 220: the parameters, the variables bound on every
  path that reaches the line, and \<^verbatim>\<open>original_mode\<close> when line 208 has run.\<close>

definition copy_local_names :: "'fs copy_locals \<Rightarrow> string list" where
  "copy_local_names L =
     [''source'', ''destination'', ''logger'', ''ignores'', ''overwrite'', ''buffer'',
      ''metadata'', ''status'', ''msg'', ''source_path'', ''destination_path'',
      ''copy_func'', ''_copy_file_obj'', ''ignore_func'']
     @ (case cl_original_mode L of None \<Rightarrow> [] | Some m \<Rightarrow> [''original_mode''])"

definition S_IWRITE :: nat where
  "S_IWRITE = 128"

text \<open>Sequencing inside the \<^verbatim>\<open>try\<close>: the next statement runs unless the last one raised.\<close>

definition and_then ::
  "exn option \<times> 'a \<Rightarrow> ('a \<Rightarrow> exn option \<times> 'a) \<Rightarrow> exn option \<times> 'a" where
  "and_then r f = (case r of (Some e, L) \<Rightarrow> (Some e, L) | (None, L) \<Rightarrow> f L)"

text \<open>\<^verbatim>\<open>msg = msg + text; logger.error(msg); raise ValueError(msg)\<close>\<close>

definition raise_msg :: "string \<Rightarrow> 'fs copy_locals \<Rightarrow> exn option \<times> 'fs copy_locals" where
  "raise_msg text L =
     (let m = cl_msg L @ text in (Some (ValueError m), L\<lparr>cl_msg := m\<rparr>))"

text \<open>A command of the file system, run on the locals.\<close>

definition run_fs ::
  "('fs \<Rightarrow> exn option \<times> 'fs) \<Rightarrow> 'fs copy_locals \<Rightarrow> exn option \<times> 'fs copy_locals" where
  "run_fs cmd L = (case cmd (cl_fs L) of (r, fs') \<Rightarrow> (r, L\<lparr>cl_fs := fs'\<rparr>))"

definition set_status :: "'fs copy_locals \<Rightarrow> exn option \<times> 'fs copy_locals" where
  "set_status L = (None, L\<lparr>cl_status := True\<rparr>)"

text \<open>Lines 206 to 209.\<close>

definition make_writable ::
  "'fs os_api \<Rightarrow> string \<Rightarrow> 'fs copy_locals \<Rightarrow> exn option \<times> 'fs copy_locals" where
  "make_writable os destination L =
     (if os_access_w os destination (cl_fs L) then (None, L)
      else
        (case path_stat_mode os destination (cl_fs L) of
           Inl e \<Rightarrow> (Some e, L)
         | Inr original_mode \<Rightarrow>
             run_fs (path_chmod os destination (original_mode OR S_IWRITE))
               (L\<lparr>cl_original_mode := Some original_mode\<rparr>)))"

text \<open>Lines 211 to 217.\<close>

definition copy_over ::
  "'fs os_api \<Rightarrow> string \<Rightarrow> string \<Rightarrow> string list option \<Rightarrow> bool \<Rightarrow> 'fs copy_locals
     \<Rightarrow> exn option \<times> 'fs copy_locals" where
  "copy_over os source destination ignore_func metadata L =
     (case path_is_file os source (cl_fs L) of
        Inl e \<Rightarrow> (Some e, L)
      | Inr True \<Rightarrow>
          and_then (run_fs (shutil_copy os metadata source destination) L) set_status
      | Inr False \<Rightarrow>
          and_then
            (and_then (run_fs (shutil_rmtree os destination) L)
               (run_fs (shutil_copytree os source destination ignore_func)))
            set_status)"

text \<open>Lines 219 to 221.\<close>

definition restore_mode ::
  "'fs os_api \<Rightarrow> string \<Rightarrow> 'fs copy_locals \<Rightarrow> exn option \<times> 'fs copy_locals" where
  "restore_mode os destination L =
     (if ''originalMode'' \<in> set (copy_local_names L) then
        (case cl_original_mode L of
           None \<Rightarrow> (Some (NameError ''original_mode''), L)
         | Some original_mode \<Rightarrow> run_fs (path_chmod os destination original_mode) L)
      else (None, L))"

text \<open>Lines 200 to 221: the destination exists.\<close>

definition copy_existing ::
  "'fs os_api \<Rightarrow> string \<Rightarrow> string \<Rightarrow> string list option \<Rightarrow> bool \<Rightarrow> bool \<Rightarrow> 'fs copy_locals
     \<Rightarrow> exn option \<times> 'fs copy_locals" where
  "copy_existing os source destination ignore_func overwrite metadata L =
     (if \<not> overwrite then
        raise_msg ''Destination already exists. Overwrite is set to False.'' L
      else
        and_then
          (and_then (make_writable os destination L)
             (copy_over os source destination ignore_func metadata))
          (restore_mode os destination))"

text \<open>Lines 224 to 242: the destination does not exist.\<close>

definition copy_fresh ::
  "'fs os_api \<Rightarrow> string \<Rightarrow> string \<Rightarrow> string list option \<Rightarrow> bool \<Rightarrow> 'fs copy_locals
     \<Rightarrow> exn option \<times> 'fs copy_locals" where
  "copy_fresh os source destination ignore_func metadata L =
     (case path_is_file os source (cl_fs L) of
        Inl e \<Rightarrow> (Some e, L)
      | Inr True \<Rightarrow>
          and_then
            (and_then
               (run_fs (path_mkdir os
                  (if path_suffix os destination \<noteq> [] then path_parent os destination
                   else destination)) L)
               (run_fs (shutil_copy os metadata source destination)))
            set_status
      | Inr False \<Rightarrow>
          (case path_is_file os destination (cl_fs L) of
             Inl e \<Rightarrow> (Some e, L)
           | Inr True \<Rightarrow>
               raise_msg ''Source is a directory and destination is a file. Please check.'' L
           | Inr False \<Rightarrow>
               and_then (run_fs (shutil_copytree os source destination ignore_func) L)
                 set_status))"

text \<open>The body of the \<^verbatim>\<open>try\<close>, lines 168 to 242. Replacing \<^verbatim>\<open>shutil.copyfileobj\<close> by the
  buffered loop changes no result and is left out, with the \<^verbatim>\<open>buffer\<close> parameter. An
  \<^verbatim>\<open>ignores\<close> of \<open>None\<close> is the empty list: both are false in \<^verbatim>\<open>if ignores\<close>.\<close>

definition copy_try ::
  "'fs os_api \<Rightarrow> string \<Rightarrow> string \<Rightarrow> string list \<Rightarrow> bool \<Rightarrow> bool \<Rightarrow> 'fs copy_locals
     \<Rightarrow> exn option \<times> 'fs copy_locals" where
  "copy_try os source0 destination0 ignores overwrite metadata L =
     (let source = convert_to_unc os source0;
          destination = convert_to_unc os destination0
      in case path_exists os source (cl_fs L) of
           Inl e \<Rightarrow> (Some e, L)
         | Inr False \<Rightarrow> raise_msg ''Source path does not exist.'' L
         | Inr True \<Rightarrow>
             (let ignore_func = (if ignores \<noteq> [] then Some ignores else None) in
              case path_exists os destination (cl_fs L) of
                Inl e \<Rightarrow> (Some e, L)
              | Inr True \<Rightarrow>
                  copy_existing os source destination ignore_func overwrite metadata L
              | Inr False \<Rightarrow> copy_fresh os source destination ignore_func metadata L))"

text \<open>
  \<^verbatim>\<open>copy\<close>: the \<^verbatim>\<open>try\<close>, its \<^verbatim>\<open>except Exception\<close> handler, and \<^verbatim>\<open>return status, msg\<close>. The
  \<^verbatim>\<open>impersonate\<close> decorator sets \<^verbatim>\<open>login = password = ""\<close>, so its wrapper calls the
  function and returns its result. The file system after the call is returned too.
\<close>

text \<open>The locals of \<^verbatim>\<open>copy\<close> on entry.\<close>

definition copy_entry :: "'fs \<Rightarrow> 'fs copy_locals" where
  "copy_entry fs0 = \<lparr>cl_status = False, cl_msg = [], cl_original_mode = None, cl_fs = fs0\<rparr>"

definition copy ::
  "'fs os_api \<Rightarrow> string \<Rightarrow> string \<Rightarrow> string list \<Rightarrow> bool \<Rightarrow> bool \<Rightarrow> 'fs
     \<Rightarrow> (bool \<times> string) \<times> 'fs" where
  "copy os source destination ignores overwrite metadata fs0 =
     (case copy_try os source destination ignores overwrite metadata (copy_entry fs0) of
        (Some e, L) \<Rightarrow> ((cl_status L, exn_str e), cl_fs L)
      | (None, L) \<Rightarrow> ((cl_status L, cl_msg L), cl_fs L))"



section \<open>publish.py: Publish.publish\<close>

text \<open>The attributes of a \<^verbatim>\<open>Publish\<close> instance that \<^verbatim>\<open>publish\<close> reads.
  \<^verbatim>\<open>sg_global_utils.validate_role_assignments\<close> and \<^verbatim>\<open>sg_global_utils.build_template_path\<close>
  are not among the sources; they are parameters. The template path is built from the
  template, the extension, the task and the entity record.\<close>

record 'fs publish =
  pb_sg_obj :: sg_store
  pb_os :: "'fs os_api"
  pb_action :: string
  pb_project_name :: string
  pb_project_id :: int
  pb_valid_roles :: "string list"
  pb_config_data :: action_config
  pb_selected_tasks_data :: "task list"
  pb_publish_types :: "(int \<times> string) list"
  pb_task_config_data :: "ce24 list"
  pb_validate_role_assignments :: "task \<Rightarrow> string list \<Rightarrow> bool \<times> string"
  pb_build_template_path :: "string \<Rightarrow> string \<Rightarrow> task \<Rightarrow> entity \<Rightarrow> string"

text \<open>\<^verbatim>\<open>publish_batch_data\<close> is assigned once, before the loop over the tasks (line 169),
  like \<^verbatim>\<open>report_list\<close> and \<^verbatim>\<open>batch_data\<close>.\<close>

record 'fs publish_state = run_state +
  publish_batch_data :: "batch_op list"
  ps_fs :: 'fs

text \<open>The locals of one task that the loop over its file slots assigns.\<close>

record 'fs slot_locals =
  overall_status :: bool
  overall_msg :: string
  sl_st :: "'fs publish_state"

text \<open>The queries of \<^verbatim>\<open>publish\<close>, each the filter list of its call site.\<close>

definition find_entity :: "sg_store \<Rightarrow> string \<Rightarrow> string \<Rightarrow> string \<Rightarrow> entity list" where
  "find_entity sg etype name project =
     filter (\<lambda>e. ent_type e = etype \<and> ent_code e = name \<and> ent_project e = project)
       (sg_entities sg)"

definition find_task_by_id :: "sg_store \<Rightarrow> int \<Rightarrow> task list" where
  "find_task_by_id sg i = filter (\<lambda>x. task_id x = i) (sg_tasks sg)"

definition find_pending_techfixes ::
  "sg_store \<Rightarrow> int \<Rightarrow> int \<Rightarrow> int \<Rightarrow> techfix list" where
  "find_pending_techfixes sg from_id tid pid =
     filter (\<lambda>r. tf_from r = Some from_id \<and> tf_task r \<noteq> tid \<and> tf_project r = pid
               \<and> tf_status r \<notin> set [''pub'', ''omt'', ''reject''])
       (sg_techfixes sg)"

definition find_step_task :: "sg_store \<Rightarrow> string \<Rightarrow> string \<Rightarrow> entity_link \<Rightarrow> task list" where
  "find_step_task sg project step l =
     filter (\<lambda>x. task_project x = project \<and> task_pipelineStep x = step
               \<and> link_type (task_link x) = link_type l \<and> link_id (task_link x) = link_id l)
       (sg_tasks sg)"

text \<open>\<^verbatim>\<open>str(n)\<close> of an integer and \<^verbatim>\<open>s.zfill(w)\<close>.\<close>

function str_nat :: "nat \<Rightarrow> string" where
  "str_nat n =
     (if n < 10 then [''0123456789'' ! n]
      else str_nat (n div 10) @ [''0123456789'' ! (n mod 10)])"
  by pat_completeness auto
termination
  by (relation "measure id") auto

declare str_nat.simps [simp del]

definition str_int :: "int \<Rightarrow> string" where
  "str_int i = (if i < 0 then CHR ''-'' # str_nat (nat (- i)) else str_nat (nat i))"

definition zfill :: "nat \<Rightarrow> string \<Rightarrow> string" where
  "zfill w s =
     (case s of
        [] \<Rightarrow> replicate w (CHR ''0'')
      | c # cs \<Rightarrow>
          if c = CHR ''-'' \<or> c = CHR ''+''
          then c # replicate (w - length s) (CHR ''0'') @ cs
          else replicate (w - length s) (CHR ''0'') @ s)"

text \<open>\<^verbatim>\<open>re.search(r"\*\.(\w+)", filter)\<close> and its group, or the empty string. A word
  character is an ASCII letter, a digit or the underscore.\<close>

definition is_word :: "char \<Rightarrow> bool" where
  "is_word c =
     (c \<in> set (''abcdefghijklmnopqrstuvwxyz'' @ ''ABCDEFGHIJKLMNOPQRSTUVWXYZ''
               @ ''0123456789_''))"

fun find_extension :: "string \<Rightarrow> string" where
  "find_extension [] = []"
| "find_extension (c # cs) =
     (if c = CHR ''*'' \<and> (case cs of d # e # r \<Rightarrow> d = CHR ''.'' \<and> is_word e | _ \<Rightarrow> False)
      then takeWhile is_word (tl cs)
      else find_extension cs)"

text \<open>\<^verbatim>\<open>s.replace(sub, "")\<close>: the occurrences of \<open>sub\<close>, left to right and not overlapping,
  are dropped; the counter is the number of characters of a match still to drop.\<close>

definition startswith :: "string \<Rightarrow> string \<Rightarrow> bool" where
  "startswith s pre = (take (length pre) s = pre)"

fun remove_sub :: "string \<Rightarrow> nat \<Rightarrow> string \<Rightarrow> string" where
  "remove_sub sub k [] = []"
| "remove_sub sub (Suc k) (c # cs) = remove_sub sub k cs"
| "remove_sub sub 0 (c # cs) =
     (if sub \<noteq> [] \<and> startswith (c # cs) sub then remove_sub sub (length sub - 1) cs
      else c # remove_sub sub 0 cs)"

definition str_remove :: "string \<Rightarrow> string \<Rightarrow> string" where
  "str_remove sub s = remove_sub sub 0 s"

text \<open>Lines 361 to 366.\<close>

definition strip_segments :: "string \<Rightarrow> string" where
  "strip_segments destination =
     str_remove ''/texture'' (str_remove (CHR 0x5C # ''texture'')
       (str_remove ''/workarea'' (str_remove (CHR 0x5C # ''workarea'') destination)))"

text \<open>\<^verbatim>\<open>get_published_file_data\<close>: the dictionary, or \<open>None\<close> for the empty dictionary
  that is returned when the body raised. The client version is a number or unset; the
  Version records of the store are in the order of their creation.\<close>

definition get_published_file_data ::
  "'fs publish \<Rightarrow> task \<Rightarrow> string \<Rightarrow> string \<Rightarrow> 'fs \<Rightarrow> published_file option" where
  "get_published_file_data self task_data file_type path fs0 =
     (let client_pass = (case task_clientVersion task_data of None \<Rightarrow> 0 | Some n \<Rightarrow> n);
          entity_type = link_type (task_link task_data);
          entity_name = link_name (task_link task_data);
          entity_id = link_id (task_link task_data);
          publish_code = entity_name @ ''_'' @ task_pipelineStep task_data @ ''_v''
                           @ zfill 3 (str_int client_pass);
          publish_file_type = filter (\<lambda>i. snd i = file_type) (pb_publish_types self)
      in case sg_versions (pb_sg_obj self) of
           Inl e \<Rightarrow> None
         | Inr versions \<Rightarrow>
             (let latest_version =
                    filter (\<lambda>v. ver_link v = (entity_type, entity_id)
                              \<and> ver_sg_task v = Some (task_id task_data)
                              \<and> ver_status v \<in> set [''qcap'']) versions;
                  code = (if os_path_isfile (pb_os self) path fs0
                          then os_path_basename (pb_os self) path else publish_code)
              in Some \<lparr>pf_project = pb_project_id self,
                       pf_name = publish_code,
                       pf_code = code,
                       pf_sg_status_list = ''cmpt'',
                       pf_version_number = client_pass,
                       pf_published_file_type =
                         (if publish_file_type \<noteq> [] then Some (last publish_file_type)
                          else None),
                       pf_entity = (entity_type, entity_id),
                       pf_task = task_id task_data,
                       pf_version =
                         (if latest_version \<noteq> [] then Some (last latest_version) else None),
                       pf_sg_absolute_path = path\<rparr>))"

text \<open>Lines 340 to 401: the body of the loop over the publish tags of one slot.\<close>

definition publish_tag ::
  "'fs publish \<Rightarrow> task \<Rightarrow> entity \<Rightarrow> ce24 \<Rightarrow> string \<Rightarrow> slot \<Rightarrow> string \<Rightarrow> string \<Rightarrow> string
     \<Rightarrow> 'fs slot_locals \<Rightarrow> flow \<times> 'fs slot_locals" where
  "publish_tag self t entity_data task_config each sl extension source each_tag A =
     (case map_of (slot_tags sl) each_tag of
        None \<Rightarrow> (Raised (KeyError each_tag), A)
      | Some key \<Rightarrow>
          if key = [] then (Next, A)
          else
            (case map_of (ce_templates task_config) key of
               None \<Rightarrow> (Raised (KeyError key), A)
             | Some template \<Rightarrow>
                 (let built = pb_build_template_path self template extension t entity_data;
                      destination =
                        (if ent_type entity_data = ''Asset''
                            \<and> ent_assetType entity_data = ''props''
                            \<and> each_tag = ''server''
                            \<and> task_pipelineStep t = ''Texture''
                         then strip_segments built else built);
                      ignore = (if each = ''Unreal Folder''
                                then cfg_ignores (pb_config_data self) else [])
                  in case copy (pb_os self) source destination ignore True True
                            (ps_fs (sl_st A)) of
                       ((copy_status, msg), fs') \<Rightarrow>
                         (let st1 = (sl_st A)\<lparr>ps_fs := fs'\<rparr> in
                          if copy_status then
                            (case get_published_file_data self t each destination fs' of
                               Some publish_data \<Rightarrow>
                                 (Next,
                                  A\<lparr>sl_st := called (Find ''Version'')
                                      (st1\<lparr>publish_batch_data := publish_batch_data st1
                                         @ [Create ''PublishedFile'' publish_data]\<rparr>)\<rparr>)
                             | None \<Rightarrow>
                                 (Next,
                                  A\<lparr>overall_status := False,
                                    overall_msg := overall_msg A
                                      @ ''Error During creating PublishFile Record in ShotGrid; '',
                                    sl_st := called (Find ''Version'') st1\<rparr>))
                          else
                            (Next,
                             A\<lparr>overall_status := False,
                               overall_msg := msg @ overall_msg A,
                               sl_st := st1\<rparr>)))))"

text \<open>Lines 312 to 401: the body of the loop over the file slots.\<close>

definition publish_slot ::
  "'fs publish \<Rightarrow> task \<Rightarrow> entity \<Rightarrow> ce24 \<Rightarrow> string \<times> slot \<Rightarrow> 'fs slot_locals
     \<Rightarrow> flow \<times> 'fs slot_locals" where
  "publish_slot self t entity_data task_config item A =
     (case item of
        (each, sl) \<Rightarrow>
          if slot_workarea sl = [] then (Next, A)
          else
            (let extension = find_extension (slot_filter sl) in
             case map_of (ce_templates task_config) (slot_workarea sl) of
               None \<Rightarrow> (Raised (KeyError (slot_workarea sl)), A)
             | Some template \<Rightarrow>
                 (let source = pb_build_template_path self template extension t entity_data
                  in if \<not> os_path_exists (pb_os self) source (ps_fs (sl_st A))
                        \<and> \<not> slot_mandatory sl
                     then (Next, A)
                     else for_each
                            (publish_tag self t entity_data task_config each sl extension
                               source)
                            (cfg_publishTags (pb_config_data self)) A)))"

text \<open>Lines 603 to 614.\<close>

definition publish_done ::
  "task \<Rightarrow> string \<Rightarrow> report_dict \<Rightarrow> 'fs publish_state \<Rightarrow> flow \<times> 'fs publish_state" where
  "publish_done t next_status rd st =
     (Next,
      append_report
        (rd\<lparr>rd_Success := ''YES'', rd_Reason := Text ''Task is Successfully Published''\<rparr>)
        (append_batch
           (Update ''Task'' (task_id t) (Some next_status) # publish_batch_data st) st))"

text \<open>Lines 593 to 601, then the end of the body.\<close>

definition publish_asset_data ::
  "task \<Rightarrow> entity \<Rightarrow> string \<Rightarrow> report_dict \<Rightarrow> string option \<Rightarrow> 'fs publish_state
     \<Rightarrow> flow \<times> 'fs publish_state" where
  "publish_asset_data t entity_data next_status rd asset_data st =
     publish_done t next_status rd
       (case asset_data of
          None \<Rightarrow> st
        | Some s \<Rightarrow>
            append_batch [Update (ent_type entity_data) (ent_id entity_data) (Some s)] st)"

text \<open>The two client QC branches, lines 528 to 591: the task of the paired step.\<close>

definition publish_paired_qc ::
  "'fs publish \<Rightarrow> task \<Rightarrow> entity \<Rightarrow> string \<Rightarrow> report_dict \<Rightarrow> string \<Rightarrow> 'fs publish_state
     \<Rightarrow> flow \<times> 'fs publish_state" where
  "publish_paired_qc self t entity_data next_status rd paired st =
     (let qc_task = find_step_task (pb_sg_obj self) (pb_project_name self) paired
                      (task_link t);
          st1 = called (Find ''Task'') st
      in if qc_task = [] then
           (Next,
            append_report (rd\<lparr>rd_Reason := Text (paired @ '' Task is not available in SG'')\<rparr>)
              st1)
         else
           publish_asset_data t entity_data next_status rd
             (if next_status = ''pub'' \<and> task_status (last qc_task) = ''pub''
              then Some ''rfp'' else None) st1)"

text \<open>Lines 521 to 601: the status of the asset.\<close>

definition publish_asset ::
  "'fs publish \<Rightarrow> task \<Rightarrow> entity \<Rightarrow> string \<Rightarrow> report_dict \<Rightarrow> 'fs publish_state
     \<Rightarrow> flow \<times> 'fs publish_state" where
  "publish_asset self t entity_data next_status rd st =
     (if ent_type entity_data = ''Asset'' then
        (if task_pipelineStep t = ''Rig'' then
           publish_asset_data t entity_data next_status rd (Some ''rfa'') st
         else if task_pipelineStep t \<in> set [''LooknFeel'', ''Texture''] then
           publish_asset_data t entity_data next_status rd (Some ''rflgt'') st
         else if task_pipelineStep t = ''RigClientQC'' then
           publish_paired_qc self t entity_data next_status rd ''LgtClientQC'' st
         else if task_pipelineStep t = ''LgtClientQC'' then
           publish_paired_qc self t entity_data next_status rd ''RigClientQC'' st
         else publish_asset_data t entity_data next_status rd None st)
      else publish_done t next_status rd st)"

definition techfix_no_source :: string where
  "techfix_no_source =
     ''Selected Task TechFixData Record is not having'' @
     ''Source Task Data to update as TechFix Done,'' @
     ''Please check with SG Team''"

text \<open>Lines 471 to 519: the originating task on hold for techfix.\<close>

definition publish_from_task ::
  "'fs publish \<Rightarrow> task \<Rightarrow> int \<Rightarrow> string \<Rightarrow> 'fs publish_state \<Rightarrow> 'fs publish_state" where
  "publish_from_task self t from_id tech_from_task_status st =
     (if tech_from_task_status = ''tfhl'' then
        (let from_task_wip_techfixes =
               find_pending_techfixes (pb_sg_obj self) from_id (task_id t)
                 (pb_project_id self);
             st1 = called (Find ''CustomEntity04'') st
         in if from_task_wip_techfixes = []
            then append_batch [Update ''Task'' from_id (Some ''thdn'')] st1
            else st1)
      else st)"

text \<open>Lines 410 to 519: the TechFixData record of a techfix task and its originating task.\<close>

definition publish_techfix ::
  "'fs publish \<Rightarrow> task \<Rightarrow> entity \<Rightarrow> string \<Rightarrow> report_dict \<Rightarrow> 'fs publish_state
     \<Rightarrow> flow \<times> 'fs publish_state" where
  "publish_techfix self t entity_data next_status rd st =
     (let tech_data_entry =
            find_techfix_of_task (pb_sg_obj self) (task_id t) (pb_project_id self);
          st1 = called (Find ''CustomEntity04'') st
      in if tech_data_entry = [] then
           (Next,
            append_report
              (rd\<lparr>rd_Reason :=
                 Text ''Selected Task TechFixData Record is not available in SG''\<rparr>) st1)
         else
           (let st2 = append_batch
                        [Update ''CustomEntity04'' (tf_id (last tech_data_entry))
                           (Some next_status)] st1
            in case tf_from (last tech_data_entry) of
                 None \<Rightarrow> (Next, append_report (rd\<lparr>rd_Reason := Text techfix_no_source\<rparr>) st2)
               | Some from_id \<Rightarrow>
                   (let tech_from_task_data = find_task_by_id (pb_sg_obj self) from_id;
                        st3 = called (Find ''Task'') st2
                    in if tech_from_task_data = [] then
                         (Raised (IndexError ''list index out of range''), st3)
                       else
                         publish_asset self t entity_data next_status rd
                           (publish_from_task self t from_id
                              (task_status (last tech_from_task_data)) st3))))"

text \<open>Lines 403 to 617.\<close>

definition publish_cascade ::
  "'fs publish \<Rightarrow> task \<Rightarrow> entity \<Rightarrow> bool \<Rightarrow> string \<Rightarrow> report_dict \<Rightarrow> 'fs slot_locals
     \<Rightarrow> flow \<times> 'fs publish_state" where
  "publish_cascade self t entity_data is_techfix next_status rd A =
     (if overall_status A then
        (if is_techfix then publish_techfix self t entity_data next_status rd (sl_st A)
         else publish_asset self t entity_data next_status rd (sl_st A))
      else (Next, append_report (rd\<lparr>rd_Reason := Text (overall_msg A)\<rparr>) (sl_st A)))"

text \<open>Lines 297 to 308: the file slots of the next status, with the fallback.\<close>

definition select_file_configs ::
  "task_file_configs option \<Rightarrow> string \<Rightarrow> string \<Rightarrow> file_configs option" where
  "select_file_configs task_file_configs next_status pipeline_step =
     (case task_file_configs of
        None \<Rightarrow> Some []
      | Some tfc \<Rightarrow>
          if tfc = [] then Some []
          else
            (let file_configs = map_of tfc next_status in
             if file_configs = None \<or> file_configs = Some [] then
               (if pipeline_step = ''Lighting'' then map_of tfc ''movcpt''
                else (case map_of tfc ''cmpt'' of None \<Rightarrow> Some [] | Some fc \<Rightarrow> Some fc))
             else file_configs))"

text \<open>Lines 295 to 617: the next status, the copies, the cascade.\<close>

definition publish_files ::
  "'fs publish \<Rightarrow> task \<Rightarrow> entity \<Rightarrow> ce24 \<Rightarrow> bool \<Rightarrow> status_map \<Rightarrow> task_file_configs option
     \<Rightarrow> report_dict \<Rightarrow> 'fs publish_state \<Rightarrow> flow \<times> 'fs publish_state" where
  "publish_files self t entity_data task_config is_techfix status_map task_file_configs rd st =
     (case map_of status_map (task_status t) of
        None \<Rightarrow> (Raised (KeyError (task_status t)), st)
      | Some next_status \<Rightarrow>
          (case select_file_configs task_file_configs next_status (task_pipelineStep t) of
             None \<Rightarrow> (Raised (TypeError ''NoneType object is not iterable''), st)
           | Some file_configs \<Rightarrow>
               (case for_each (publish_slot self t entity_data task_config) file_configs
                       \<lparr>overall_status = True, overall_msg = [], sl_st = st\<rparr> of
                  (Raised e, A) \<Rightarrow> (Raised e, sl_st A)
                | (Next, A) \<Rightarrow>
                    publish_cascade self t entity_data is_techfix next_status rd A)))"

text \<open>Lines 273 to 282.\<close>

definition publish_roles ::
  "'fs publish \<Rightarrow> task \<Rightarrow> entity \<Rightarrow> ce24 \<Rightarrow> bool \<Rightarrow> status_map \<Rightarrow> task_file_configs option
     \<Rightarrow> report_dict \<Rightarrow> 'fs publish_state \<Rightarrow> flow \<times> 'fs publish_state" where
  "publish_roles self t entity_data task_config is_techfix status_map task_file_configs rd st =
     (case pb_validate_role_assignments self t (pb_valid_roles self) of
        (valid_role_assignments, valid_role_assignment_msg) \<Rightarrow>
          if \<not> valid_role_assignments then
            (Next, append_report (rd\<lparr>rd_Reason := Text valid_role_assignment_msg\<rparr>) st)
          else publish_files self t entity_data task_config is_techfix status_map
                 task_file_configs rd st)"

text \<open>\<^verbatim>\<open>ast.literal_eval(field) if field else None\<close>\<close>

definition guarded_literal_eval :: "'a literal_field \<Rightarrow> exn + 'a option" where
  "guarded_literal_eval f =
     (case f of
        Unset \<Rightarrow> Inr None
      | Malformed \<Rightarrow> Inl (ValueError ''malformed node or string'')
      | Literal v \<Rightarrow> Inr (Some v))"

text \<open>\<^verbatim>\<open>not d\<close> for a dictionary or \<open>None\<close>.\<close>

definition falsy :: "'a list option \<Rightarrow> bool" where
  "falsy d = (d = None \<or> d = Some [])"

text \<open>\<^verbatim>\<open>status_config.update({"tlapr": "pub", "movapr": "pub"})\<close>\<close>

definition status_override :: "status_map \<Rightarrow> status_map" where
  "status_override m = AList.update ''movapr'' ''pub'' (AList.update ''tlapr'' ''pub'' m)"

definition status_invalid :: string where
  "status_invalid = ''Selected Task current status is not valid for this Action in SG''"

definition config_empty :: string where
  "config_empty = ''Shotgrid Config is Empty for this Task, Please check with SG Team''"

text \<open>Lines 239 to 271: the configuration is parsed, the status map of the action is
  selected and overridden, the current status is looked up.\<close>

definition publish_status ::
  "'fs publish \<Rightarrow> task \<Rightarrow> entity \<Rightarrow> ce24 \<Rightarrow> bool \<Rightarrow> report_dict \<Rightarrow> 'fs publish_state
     \<Rightarrow> flow \<times> 'fs publish_state" where
  "publish_status self t entity_data task_config is_techfix rd st =
     (case guarded_literal_eval (ce_statusConfig task_config) of
        Inl e \<Rightarrow> (Raised e, st)
      | Inr status_config \<Rightarrow>
          (case guarded_literal_eval (ce_fileConfig task_config) of
             Inl e \<Rightarrow> (Raised e, st)
           | Inr task_file_configs \<Rightarrow>
               (let client_qc =
                      (task_pipelineStep t \<in> set (cfg_clientQcSteps (pb_config_data self)))
                in if \<not> client_qc \<and> (falsy status_config \<or> falsy task_file_configs) then
                     (Next, append_report (rd\<lparr>rd_Reason := Text config_empty\<rparr>) st)
                   else
                     (case status_config of
                        None \<Rightarrow> (Raised none_subscript, st)
                      | Some sc \<Rightarrow>
                          (case map_of sc (pb_action self) of
                             None \<Rightarrow> (Raised (KeyError (pb_action self)), st)
                           | Some selected \<Rightarrow>
                               (let status_map =
                                      (if is_techfix \<or> \<not> ce_qcProcess task_config
                                       then status_override selected else selected)
                                in if \<not> client_qc
                                      \<and> map_of status_map (task_status t) = None
                                   then
                                     (Next,
                                      append_report
                                        (rd\<lparr>rd_Reason := Text status_invalid\<rparr>) st)
                                   else
                                     publish_roles self t entity_data task_config
                                       is_techfix status_map task_file_configs rd st))))))"

definition entity_missing :: string where
  "entity_missing = ''Selected Shot/Asset data is not found in SG''"

text \<open>The body of the loop over \<^verbatim>\<open>self.selected_tasks_data\<close>, from line 172.\<close>

definition publish_item ::
  "'fs publish \<Rightarrow> task \<Rightarrow> 'fs publish_state \<Rightarrow> flow \<times> 'fs publish_state" where
  "publish_item self t st =
     (let rd = \<lparr>rd_item = link_name (task_link t), rd_Task = task_pipelineStep t,
                rd_Success = ''NO'', rd_Reason = Text ''''\<rparr>;
          task_entity = task_link t;
          entity_data = find_entity (pb_sg_obj self) (link_type task_entity)
                          (link_name task_entity) (pb_project_name self);
          st1 = called (Find (link_type task_entity)) st
      in if entity_data = [] then
           (Next, append_report (rd\<lparr>rd_Reason := Text entity_missing\<rparr>) st1)
         else
           (case config_task_name (task_taskName t) (task_splitType t) of
              (is_techfix, cname) \<Rightarrow>
                (let task_config = match_task_config (pb_task_config_data self) t cname in
                 if task_config = [] then
                   (Next, append_report (rd\<lparr>rd_Reason := Text config_missing\<rparr>) st1)
                 else
                   publish_status self t (last entity_data) (last task_config) is_techfix
                     rd st1)))"

definition publish_init :: "'fs \<Rightarrow> 'fs publish_state" where
  "publish_init fs0 =
     \<lparr>report_list = [], batch_data = [], sg_calls = [], publish_batch_data = [],
      ps_fs = fs0\<rparr>"

text \<open>\<^verbatim>\<open>publish\<close>: the report, the calls of the store's API, and the file system it leaves.\<close>

definition publish :: "'fs publish \<Rightarrow> 'fs \<Rightarrow> (report_dict list \<times> sg_call list) \<times> 'fs" where
  "publish self fs0 =
     (case for_each (publish_item self) (pb_selected_tasks_data self) (publish_init fs0) of
        (Raised e, st) \<Rightarrow> ((fatal_report e, sg_calls st), ps_fs st)
      | (Next, st) \<Rightarrow> (flush (pb_sg_obj self) st, ps_fs st))"



section \<open>Rows and conditions used in the statements\<close>

text \<open>The row of a version and the row of a task as the loop bodies initialise them.\<close>

definition new_row :: "version \<Rightarrow> task \<Rightarrow> report_dict" where
  "new_row v t =
     \<lparr>rd_item = ver_versionName v, rd_Task = task_pipelineStep t, rd_Success = ''NO'',
      rd_Reason = Text ''''\<rparr>"

definition task_row :: "task \<Rightarrow> report_dict" where
  "task_row t =
     \<lparr>rd_item = link_name (task_link t), rd_Task = task_pipelineStep t, rd_Success = ''NO'',
      rd_Reason = Text ''''\<rparr>"

text \<open>The version has its task in \<^verbatim>\<open>self.tasks\<close>, a configuration record matches the task,
  and its status configuration parses to a non-empty dictionary with the status map of
  the action: the body of the loop of \<^verbatim>\<open>update_version\<close> reaches line 300.\<close>

definition reaches_authorize ::
  "review \<Rightarrow> version \<Rightarrow> task \<Rightarrow> bool \<Rightarrow> status_map \<Rightarrow> bool" where
  "reaches_authorize self v t is_techfix status_map =
     (case ver_sg_task v of
        None \<Rightarrow> False
      | Some tid \<Rightarrow>
          map_of (rv_tasks self) tid = Some t \<and>
          (case config_task_name (task_taskName t) (task_splitType t) of
             (tf, cname) \<Rightarrow>
               tf = is_techfix \<and>
               (let cfgs = match_task_config (rv_task_config_data self) t cname in
                cfgs \<noteq> [] \<and>
                (case ce_statusConfig (last cfgs) of
                   Literal sc \<Rightarrow> sc \<noteq> [] \<and> map_of sc (rv_action self) = Some status_map
                 | _ \<Rightarrow> False))))"

text \<open>No call of the batch endpoint among the calls made so far.\<close>

definition no_batch :: "'a run_state_scheme \<Rightarrow> bool" where
  "no_batch st = (filter is_batch (sg_calls st) = [])"

text \<open>The file copy or the tree copy of a call of \<^verbatim>\<open>copy\<close> ran to its end, from the file
  system \<open>fs1\<close> to \<open>fs2\<close>.\<close>

definition copied ::
  "'fs os_api \<Rightarrow> string \<Rightarrow> string \<Rightarrow> string list \<Rightarrow> bool \<Rightarrow> 'fs \<Rightarrow> 'fs \<Rightarrow> bool" where
  "copied os source destination ignores metadata fs1 fs2 =
     (shutil_copy os metadata (convert_to_unc os source) (convert_to_unc os destination) fs1
        = (None, fs2)
      \<or> shutil_copytree os (convert_to_unc os source) (convert_to_unc os destination)
          (if ignores \<noteq> [] then Some ignores else None) fs1 = (None, fs2))"

section \<open>A small installation\<close>

text \<open>
  A file system with a kind (directory or file) and a permission mode per path, and the
  library calls on it: \<^verbatim>\<open>copy2\<close> gives the destination the mode of the source, a file
  that is not writable cannot be overwritten, \<^verbatim>\<open>rmtree\<close> of a file raises.
\<close>

type_synonym simple_fs = "string \<Rightarrow> (bool \<times> nat) option"

definition simple_os :: "simple_fs os_api" where
  "simple_os =
     \<lparr>path_exists = (\<lambda>p fs. Inr (case fs p of None \<Rightarrow> False | Some n \<Rightarrow> True)),
      path_is_file = (\<lambda>p fs. Inr (case fs p of Some (False, m) \<Rightarrow> True | _ \<Rightarrow> False)),
      path_suffix = (\<lambda>p. dropWhile (\<lambda>c. c \<noteq> CHR ''.'') p),
      path_parent = (\<lambda>p. rev (tl (dropWhile (\<lambda>c. c \<noteq> CHR ''/'') (rev p)))),
      path_mkdir =
        (\<lambda>p fs. (None, case fs p of None \<Rightarrow> fs(p \<mapsto> (True, 493)) | Some n \<Rightarrow> fs)),
      path_stat_mode =
        (\<lambda>p fs. case fs p of None \<Rightarrow> Inl (OSError ''No such file or directory'')
                 | Some (d, m) \<Rightarrow> Inr m),
      path_chmod =
        (\<lambda>p m fs. case fs p of None \<Rightarrow> (Some (OSError ''No such file or directory''), fs)
                   | Some (d, old) \<Rightarrow> (None, fs(p \<mapsto> (d, m)))),
      os_access_w =
        (\<lambda>p fs. case fs p of None \<Rightarrow> False | Some (d, m) \<Rightarrow> m AND S_IWRITE \<noteq> 0),
      os_path_exists = (\<lambda>p fs. case fs p of None \<Rightarrow> False | Some n \<Rightarrow> True),
      os_path_isfile = (\<lambda>p fs. case fs p of Some (False, m) \<Rightarrow> True | _ \<Rightarrow> False),
      os_path_basename = (\<lambda>p. rev (takeWhile (\<lambda>c. c \<noteq> CHR ''/'') (rev p))),
      os_path_splitdrive =
        (\<lambda>p. if 2 \<le> length p \<and> p ! 1 = CHR '':'' then (take 2 p, drop 2 p) else ([], p)),
      os_path_join = (\<lambda>a b. a @ ''/'' @ b),
      shutil_copy =
        (\<lambda>metadata src dst fs.
           case fs src of
             Some (False, m) \<Rightarrow>
               (case fs dst of
                  None \<Rightarrow> (None, fs(dst \<mapsto> (False, m)))
                | Some (True, dm) \<Rightarrow> (Some (OSError ''Is a directory''), fs)
                | Some (False, dm) \<Rightarrow>
                    if dm AND S_IWRITE \<noteq> 0 then (None, fs(dst \<mapsto> (False, m)))
                    else (Some (OSError ''Permission denied''), fs))
           | _ \<Rightarrow> (Some (OSError ''No such file or directory''), fs)),
      shutil_rmtree =
        (\<lambda>p fs. case fs p of
                  None \<Rightarrow> (Some (OSError ''No such file or directory''), fs)
                | Some (False, m) \<Rightarrow> (Some (OSError ''Not a directory''), fs)
                | Some (True, m) \<Rightarrow> (None, fs(p := None))),
      shutil_copytree =
        (\<lambda>src dst ignore fs.
           case fs dst of
             Some n \<Rightarrow> (Some (OSError ''File exists''), fs)
           | None \<Rightarrow> (case fs src of
                        Some (True, m) \<Rightarrow> (None, fs(dst \<mapsto> (True, m)))
                      | _ \<Rightarrow> (Some (OSError ''Not a directory''), fs))),
      WNetGetUniversalName = (\<lambda>drive. Inl (OSError ''not connected''))\<rparr>"

text \<open>A work file that is writable (mode 0o644) and a published file that is read-only
  (mode 0o444).\<close>

definition ro_fs :: simple_fs where
  "ro_fs = [''/w/a.ma'' \<mapsto> (False, 420), ''/p/a.ma'' \<mapsto> (False, 292)]"

text \<open>A work directory and a published file.\<close>

definition tree_fs :: simple_fs where
  "tree_fs = [''/w/d'' \<mapsto> (True, 493), ''/p/f'' \<mapsto> (False, 420)]"

text \<open>The work area of shot \<open>s1\<close>: the Maya file is there, the movie is not.\<close>

definition work_fs :: simple_fs where
  "work_fs = [''/w/s1.ma'' \<mapsto> (False, 420)]"

definition demo_build_template_path :: "string \<Rightarrow> string \<Rightarrow> task \<Rightarrow> entity \<Rightarrow> string" where
  "demo_build_template_path template extension t e =
     template @ ent_code e @ ''.'' @ extension"

definition shot_s1 :: entity where
  "shot_s1 =
     \<lparr>ent_type = ''Shot'', ent_id = 10, ent_code = ''s1'', ent_project = ''P'',
      ent_assetType = []\<rparr>"

definition link_s1 :: entity_link where
  "link_s1 = \<lparr>link_type = ''Shot'', link_name = ''s1'', link_id = 10\<rparr>"

definition step_task :: "int \<Rightarrow> string \<Rightarrow> string \<Rightarrow> string \<Rightarrow> task" where
  "step_task i step name status =
     \<lparr>task_id = i, task_project = ''P'', task_link = link_s1, task_pipelineStep = step,
      task_status = status, task_taskName = name, task_splitType = [],
      task_teamLead = Some 5, task_supervisor = Some 5, task_clientVersion = None\<rparr>"

definition anim_task :: task where
  "anim_task = step_task 1 ''Anim'' ''Anim'' ''tlapr''"

definition comp_task :: task where
  "comp_task = step_task 2 ''Comp'' ''Comp'' ''tlapr''"

definition fix_task :: task where
  "fix_task = step_task 3 ''Anim'' ''Anim_TechFix'' ''tlapr''"

definition qc_task :: task where
  "qc_task = step_task 4 ''ClientQC'' ''ClientQC'' ''wip''"

definition layout_task :: task where
  "layout_task = step_task 6 ''Layout'' ''Layout'' ''wip''"

text \<open>A task whose shot is not in the store, of a step without configuration.\<close>

definition lost_task :: task where
  "lost_task =
     (step_task 7 ''Layout'' ''Layout'' ''wip'')
       \<lparr>task_link := \<lparr>link_type = ''Shot'', link_name = ''s9'', link_id = 19\<rparr>\<rparr>"

text \<open>The originating task of the techfix, on hold.\<close>

definition held_task :: task where
  "held_task = step_task 1 ''Anim'' ''Anim'' ''tfhl''"

definition maya_slot :: slot where
  "maya_slot =
     \<lparr>slot_workarea = ''wa'', slot_filter = ''Maya Files(*.ma)'', slot_mandatory = True,
      slot_tags = [(''server'', ''pa'')]\<rparr>"

definition mov_slot :: slot where
  "mov_slot =
     \<lparr>slot_workarea = ''wa'', slot_filter = ''Mov Files(*.mov)'', slot_mandatory = True,
      slot_tags = [(''server'', ''pa'')]\<rparr>"

definition anim_config :: ce24 where
  "anim_config =
     \<lparr>ce_entityType = ''Shot'', ce_pathSheetName = ''Anim'', ce_taskName = ''Anim'',
      ce_statusConfig = Literal [(''publish'', [(''tlapr'', ''rev'')])],
      ce_fileConfig =
        Literal [(''rev'', [(''Maya File'', maya_slot), (''Mov File'', mov_slot)])],
      ce_qcProcess = True, ce_templates = [(''wa'', ''/w/''), (''pa'', ''/p/'')]\<rparr>"

definition bare_config :: "string \<Rightarrow> ce24" where
  "bare_config step =
     \<lparr>ce_entityType = ''Shot'', ce_pathSheetName = step, ce_taskName = step,
      ce_statusConfig = Literal [(''publish'', [(''tlapr'', ''pub'')])],
      ce_fileConfig = Literal [(''cmpt'', [])],
      ce_qcProcess = True, ce_templates = []\<rparr>"

definition own_techfix :: techfix where
  "own_techfix =
     \<lparr>tf_id = 30, tf_task = 3, tf_from = Some 1, tf_project = 1, tf_status = ''wip''\<rparr>"

text \<open>Other techfix records raised by task 1 that are still pending.\<close>

definition pending_techfixes :: "nat \<Rightarrow> techfix list" where
  "pending_techfixes n =
     map (\<lambda>i. \<lparr>tf_id = 40 + int i, tf_task = 50 + int i, tf_from = Some 1, tf_project = 1,
                tf_status = ''wip''\<rparr>) [0..<n]"

definition demo_store :: "techfix list \<Rightarrow> sg_store" where
  "demo_store techfixes =
     \<lparr>sg_entities = [shot_s1], sg_tasks = [held_task], sg_techfixes = techfixes,
      sg_versions = Inr [], sg_batch = (\<lambda>ops. None)\<rparr>"

definition publish_cfg :: action_config where
  "publish_cfg =
     \<lparr>cfg_validRole = [], cfg_validLeadStatus = [''rev''], cfg_validLeadVerStatus = [''rev''],
      cfg_validSupStatus = [''wip''], cfg_validSupVerStatus = [''rev''],
      cfg_clientQcSteps = [''ClientQC''], cfg_publishTags = [''server''], cfg_ignores = []\<rparr>"

definition demo_publish :: "techfix list \<Rightarrow> task list \<Rightarrow> simple_fs publish" where
  "demo_publish techfixes tasks =
     \<lparr>pb_sg_obj = demo_store techfixes, pb_os = simple_os, pb_action = ''publish'',
      pb_project_name = ''P'', pb_project_id = 1, pb_valid_roles = [],
      pb_config_data = publish_cfg, pb_selected_tasks_data = tasks,
      pb_publish_types = [],
      pb_task_config_data = [anim_config, bare_config ''Comp'', bare_config ''ClientQC''],
      pb_validate_role_assignments = (\<lambda>t roles. (True, [])),
      pb_build_template_path = demo_build_template_path\<rparr>"

definition anim_file :: published_file where
  "anim_file =
     \<lparr>pf_project = 1, pf_name = ''s1_Anim_v000'', pf_code = ''s1.ma'',
      pf_sg_status_list = ''cmpt'', pf_version_number = 0, pf_published_file_type = None,
      pf_entity = (''Shot'', 10), pf_task = 1, pf_version = None,
      pf_sg_absolute_path = ''/p/s1.ma''\<rparr>"

definition anim_row :: report_dict where
  "anim_row =
     \<lparr>rd_item = ''s1'', rd_Task = ''Anim'', rd_Success = ''NO'',
      rd_Reason = Text ''Source path does not exist.''\<rparr>"

definition comp_row :: report_dict where
  "comp_row =
     \<lparr>rd_item = ''s1'', rd_Task = ''Comp'', rd_Success = ''YES'',
      rd_Reason = Text ''Task is Successfully Published''\<rparr>"

text \<open>The locals of a task whose copies all succeeded, at the start of a run.\<close>

definition copied_ok :: "simple_fs slot_locals" where
  "copied_ok = \<lparr>overall_status = True, overall_msg = [], sl_st = publish_init work_fs\<rparr>"

text \<open>A review by user 5, a lead who is both the team lead and the supervisor of every
  task. The versions are of the animation task in progress, of a composition task in
  review and of its techfix task.\<close>

definition review_version :: "int \<Rightarrow> int \<Rightarrow> version" where
  "review_version i tid =
     \<lparr>ver_id = i, ver_sg_task = Some tid, ver_status = ''rev'', ver_versionName = ''s1_v1'',
      ver_link = (''Shot'', 10)\<rparr>"

definition review_config :: "string \<Rightarrow> status_map \<Rightarrow> ce24" where
  "review_config step m =
     \<lparr>ce_entityType = ''Shot'', ce_pathSheetName = step, ce_taskName = step,
      ce_statusConfig = Literal [(''approve'', m)], ce_fileConfig = Unset,
      ce_qcProcess = True, ce_templates = []\<rparr>"

definition demo_review :: review where
  "demo_review =
     \<lparr>rv_sg_obj = demo_store [], rv_action = ''approve'', rv_project_id = 1,
      rv_config_data = publish_cfg, rv_valid_roles = [''Lead''],
      rv_current_user = \<lparr>user_id = 5, user_permission = ''Lead''\<rparr>,
      rv_task_config_data =
        [review_config ''Anim'' [(''rev'', ''tlapr'')],
         review_config ''Comp'' [(''tlrev'', ''tlapr'')]],
      rv_versions = [(11, review_version 11 1)],
      rv_tasks =
        [(1, step_task 1 ''Anim'' ''Anim'' ''wip''),
         (2, step_task 2 ''Comp'' ''Comp'' ''rev''),
         (3, step_task 3 ''Comp'' ''Comp_TechFix'' ''rev''),
         (6, layout_task)],
      rv_validate_role_assignments = (\<lambda>t roles. (True, []))\<rparr>"


section \<open>Lemmas on the loops, the calls and the copy\<close>


lemma no_batch_simps [simp]:
  "no_batch (called (Find x) st) = no_batch st"
  "no_batch (append_report rd st) = no_batch st"
  "no_batch (append_batch ops st) = no_batch st"
  by (simp_all add: no_batch_def called_def append_report_def append_batch_def)

lemma no_batch_publish_simps [simp]:
  "no_batch (ps\<lparr>publish_batch_data := pbd\<rparr>) = no_batch ps"
  "no_batch (ps\<lparr>ps_fs := f\<rparr>) = no_batch ps"
  by (simp_all add: no_batch_def)




lemma publish_from_task_no_batch [simp]:
  "no_batch (publish_from_task self t from_id s st) = no_batch st"
  by (simp add: publish_from_task_def Let_def)






lemma review_item_authorize:
  assumes "reaches_authorize self v t is_techfix status_map"
  shows "review_item self (version_id, v) st =
         review_authorize self version_id v t is_techfix status_map (new_row v t) st"
  using assms
  by (auto simp: reaches_authorize_def review_item_def review_task_def literal_eval_def
      Let_def new_row_def split: option.splits prod.splits literal_field.splits)

lemma map_of_status_override:
  "map_of (status_override m) = (map_of m)(''tlapr'' \<mapsto> ''pub'', ''movapr'' \<mapsto> ''pub'')"
  by (simp add: status_override_def update_conv')

text \<open>What the end of the body of \<^verbatim>\<open>publish\<close> appends to \<^verbatim>\<open>batch_data\<close>: a Task update
  among it is the update of the task itself or comes from \<^verbatim>\<open>publish_batch_data\<close>.\<close>

lemma publish_asset_appends:
  "publish_asset self t e next_status rd st = (fl, st') \<Longrightarrow>
     \<exists>ops. batch_data st' = batch_data st @ ops
       \<and> (\<forall>i x. Update ''Task'' i x \<in> set ops
              \<longrightarrow> i = task_id t \<or> Update ''Task'' i x \<in> set (publish_batch_data st))"
  by (auto simp: publish_asset_def publish_paired_qc_def publish_asset_data_def publish_done_def
      Let_def append_batch_def append_report_def called_def split: if_splits option.splits)

text \<open>An item whose overall status is false queues nothing and keeps the create requests
  of its copied slots in \<^verbatim>\<open>publish_batch_data\<close>; an item that succeeds appends the whole of
  \<^verbatim>\<open>publish_batch_data\<close> to the batch.\<close>

lemma failed_item_keeps_creates:
  "\<not> overall_status A \<Longrightarrow>
     publish_cascade self t e is_techfix next_status rd A
       = (Next, append_report (rd\<lparr>rd_Reason := Text (overall_msg A)\<rparr>) (sl_st A))
     \<and> batch_data (append_report (rd\<lparr>rd_Reason := Text (overall_msg A)\<rparr>) (sl_st A))
         = batch_data (sl_st A)
     \<and> publish_batch_data (append_report (rd\<lparr>rd_Reason := Text (overall_msg A)\<rparr>) (sl_st A))
         = publish_batch_data (sl_st A)"
  by (simp add: publish_cascade_def append_report_def)

lemma publish_done_appends_all:
  "batch_data (snd (publish_done t next_status rd st))
     = batch_data st @ Update ''Task'' (task_id t) (Some next_status) # publish_batch_data st"
  by (simp add: publish_done_def append_report_def append_batch_def)

text \<open>A client QC step whose current status the status map lacks: the check of lines 263
  to 271 lets the item pass, and with valid role assignments line 296 raises.\<close>

lemma client_qc_absent_status_raises:
  assumes "fst (pb_validate_role_assignments self t (pb_valid_roles self))"
    and "map_of status_map (task_status t) = None"
  shows "publish_roles self t e cfg is_techfix status_map tfc rd st
           = (Raised (KeyError (task_status t)), st)"
  using assms
  by (cases "pb_validate_role_assignments self t (pb_valid_roles self)")
     (simp add: publish_roles_def publish_files_def)

text \<open>Line 220 tests for the key \<^verbatim>\<open>"originalMode"\<close>, which \<^verbatim>\<open>locals()\<close> never has: whatever
  the file system and the locals, lines 219 to 221 change nothing.\<close>

lemma restore_mode_noop: "restore_mode os destination L = (None, L)"
  by (simp add: restore_mode_def copy_local_names_def split: option.splits)

lemma run_fs_cases:
  "run_fs cmd L = (r, L') \<Longrightarrow>
     cmd (cl_fs L) = (r, cl_fs L') \<and> cl_status L' = cl_status L \<and> cl_msg L' = cl_msg L"
  by (auto simp: run_fs_def split: prod.splits)

lemma make_writable_keeps:
  "make_writable os destination L = (r, L') \<Longrightarrow>
     cl_status L' = cl_status L \<and> cl_msg L' = cl_msg L"
  by (auto simp: make_writable_def split: if_splits sum.splits dest!: run_fs_cases)

lemma copy_over_outcome:
  assumes "copy_over os source destination ignore_func metadata L = (r, L')"
    and "\<not> cl_status L"
  shows "cl_msg L' = cl_msg L
       \<and> (case r of
            None \<Rightarrow> cl_status L'
              \<and> (\<exists>fs1. shutil_copy os metadata source destination fs1 = (None, cl_fs L')
                       \<or> shutil_copytree os source destination ignore_func fs1
                           = (None, cl_fs L'))
          | Some e \<Rightarrow> \<not> cl_status L')"
  using assms
  by (auto simp: copy_over_def and_then_def set_status_def
      split: sum.splits bool.splits prod.splits option.splits dest!: run_fs_cases)

lemma copy_existing_outcome:
  assumes "copy_existing os source destination ignore_func overwrite metadata L = (r, L')"
    and "\<not> cl_status L" and "cl_msg L = []"
  shows "(case r of
            None \<Rightarrow> cl_status L' \<and> cl_msg L' = []
              \<and> (\<exists>fs1. shutil_copy os metadata source destination fs1 = (None, cl_fs L')
                       \<or> shutil_copytree os source destination ignore_func fs1
                           = (None, cl_fs L'))
          | Some e \<Rightarrow> \<not> cl_status L')"
proof (cases overwrite)
  case False
  with assms show ?thesis by (auto simp: copy_existing_def raise_msg_def Let_def)
next
  case True
  obtain r1 L1 where w: "make_writable os destination L = (r1, L1)"
    by (cases "make_writable os destination L")
  note k = make_writable_keeps[OF w]
  show ?thesis
  proof (cases r1)
    case (Some e)
    with assms True w k show ?thesis by (auto simp: copy_existing_def and_then_def)
  next
    case None
    obtain r2 L2 where c: "copy_over os source destination ignore_func metadata L1 = (r2, L2)"
      by (cases "copy_over os source destination ignore_func metadata L1")
    from k assms have "\<not> cl_status L1" by simp
    note o = copy_over_outcome[OF c this]
    from assms True w None c have "(r, L') = (r2, L2)"
      by (auto simp: copy_existing_def and_then_def restore_mode_noop split: option.splits)
    with o k assms show ?thesis by (auto split: option.splits)
  qed
qed

lemma copy_fresh_outcome:
  assumes "copy_fresh os source destination ignore_func metadata L = (r, L')"
    and "\<not> cl_status L" and "cl_msg L = []"
  shows "(case r of
            None \<Rightarrow> cl_status L' \<and> cl_msg L' = []
              \<and> (\<exists>fs1. shutil_copy os metadata source destination fs1 = (None, cl_fs L')
                       \<or> shutil_copytree os source destination ignore_func fs1
                           = (None, cl_fs L'))
          | Some e \<Rightarrow> \<not> cl_status L')"
  using assms
  by (auto simp: copy_fresh_def and_then_def set_status_def raise_msg_def Let_def
      split: sum.splits bool.splits prod.splits option.splits dest!: run_fs_cases)

lemma copy_try_outcome:
  assumes "copy_try os source destination ignores overwrite metadata L = (r, L')"
    and "\<not> cl_status L" and "cl_msg L = []"
  shows "(case r of
            None \<Rightarrow> cl_status L' \<and> cl_msg L' = []
              \<and> (\<exists>fs1. copied os source destination ignores metadata fs1 (cl_fs L'))
          | Some e \<Rightarrow> \<not> cl_status L')"
  using assms
  by (auto simp: copy_try_def Let_def raise_msg_def copied_def
      split: sum.splits bool.splits option.splits
      dest!: copy_existing_outcome copy_fresh_outcome)

section \<open>Evaluation of the small installation\<close>

lemma simple_os_sel:
  "path_exists simple_os p fs = Inr (case fs p of None \<Rightarrow> False | Some n \<Rightarrow> True)"
  "path_is_file simple_os p fs = Inr (case fs p of Some (False, m) \<Rightarrow> True | _ \<Rightarrow> False)"
  "path_suffix simple_os p = dropWhile (\<lambda>c. c \<noteq> CHR ''.'') p"
  "path_parent simple_os p = rev (tl (dropWhile (\<lambda>c. c \<noteq> CHR ''/'') (rev p)))"
  "path_mkdir simple_os p fs =
     (None, case fs p of None \<Rightarrow> fs(p \<mapsto> (True, 493)) | Some n \<Rightarrow> fs)"
  "path_stat_mode simple_os p fs =
     (case fs p of None \<Rightarrow> Inl (OSError ''No such file or directory'') | Some (d, m) \<Rightarrow> Inr m)"
  "path_chmod simple_os p m fs =
     (case fs p of None \<Rightarrow> (Some (OSError ''No such file or directory''), fs)
      | Some (d, old) \<Rightarrow> (None, fs(p \<mapsto> (d, m))))"
  "os_access_w simple_os p fs =
     (case fs p of None \<Rightarrow> False | Some (d, m) \<Rightarrow> m AND S_IWRITE \<noteq> 0)"
  "os_path_exists simple_os p fs = (case fs p of None \<Rightarrow> False | Some n \<Rightarrow> True)"
  "os_path_isfile simple_os p fs = (case fs p of Some (False, m) \<Rightarrow> True | _ \<Rightarrow> False)"
  "os_path_basename simple_os p = rev (takeWhile (\<lambda>c. c \<noteq> CHR ''/'') (rev p))"
  "os_path_splitdrive simple_os p =
     (if 2 \<le> length p \<and> p ! 1 = CHR '':'' then (take 2 p, drop 2 p) else ([], p))"
  "os_path_join simple_os a b = a @ ''/'' @ b"
  "shutil_copy simple_os metadata src dst fs =
     (case fs src of
        Some (False, m) \<Rightarrow>
          (case fs dst of
             None \<Rightarrow> (None, fs(dst \<mapsto> (False, m)))
           | Some (True, dm) \<Rightarrow> (Some (OSError ''Is a directory''), fs)
           | Some (False, dm) \<Rightarrow>
               if dm AND S_IWRITE \<noteq> 0 then (None, fs(dst \<mapsto> (False, m)))
               else (Some (OSError ''Permission denied''), fs))
      | _ \<Rightarrow> (Some (OSError ''No such file or directory''), fs))"
  "shutil_rmtree simple_os p fs =
     (case fs p of
        None \<Rightarrow> (Some (OSError ''No such file or directory''), fs)
      | Some (False, m) \<Rightarrow> (Some (OSError ''Not a directory''), fs)
      | Some (True, m) \<Rightarrow> (None, fs(p := None)))"
  "shutil_copytree simple_os src dst ignore fs =
     (case fs dst of
        Some n \<Rightarrow> (Some (OSError ''File exists''), fs)
      | None \<Rightarrow> (case fs src of
                   Some (True, m) \<Rightarrow> (None, fs(dst \<mapsto> (True, m)))
                 | _ \<Rightarrow> (Some (OSError ''Not a directory''), fs)))"
  "WNetGetUniversalName simple_os drive = Inl (OSError ''not connected'')"
  by (simp_all add: simple_os_def)

lemma mode_bits:
  "(292::nat) OR S_IWRITE = 420" "(292::nat) AND S_IWRITE = 0" "(420::nat) AND S_IWRITE = 128"
  by (simp_all add: S_IWRITE_def)

lemmas publish_defs =
  publish_def publish_init_def publish_item_def publish_status_def publish_roles_def
  publish_files_def publish_slot_def publish_tag_def publish_cascade_def publish_techfix_def
  publish_from_task_def publish_asset_def publish_paired_qc_def publish_asset_data_def
  publish_done_def select_file_configs_def guarded_literal_eval_def falsy_def
  status_override_def get_published_file_data_def find_entity_def match_task_config_def
  config_task_name_def endswith_def split_first_def find_techfix_of_task_def
  find_task_by_id_def find_pending_techfixes_def find_step_task_def
  append_report_def append_batch_def called_def flush_def fatal_report_def
  zfill_def str_int_def str_nat.simps is_word_def strip_segments_def str_remove_def
  startswith_def task_row_def Let_def

lemmas review_defs =
  update_version_def init_state_def review_item_def review_task_def review_authorize_def
  review_update_def review_queue_def review_permission_def lead_path_def sup_path_def
  lead_roles_def sup_roles_def user_is_def lead_checks_def sup_checks_def literal_eval_def
  reaches_authorize_def new_row_def match_task_config_def config_task_name_def endswith_def
  split_first_def find_techfix_of_task_def append_report_def append_batch_def called_def
  Let_def

lemmas copy_defs =
  copy_def copy_try_def copy_existing_def copy_fresh_def copy_over_def make_writable_def
  restore_mode_noop and_then_def run_fs_def set_status_def raise_msg_def convert_to_unc_def
  unc_fallback_def slashes_def lstrip_slash_def copy_entry_def mode_bits

lemmas demo_defs =
  demo_publish_def demo_store_def publish_cfg_def anim_config_def bare_config_def
  maya_slot_def mov_slot_def step_task_def anim_task_def comp_task_def fix_task_def
  qc_task_def layout_task_def lost_task_def held_task_def link_s1_def shot_s1_def
  own_techfix_def pending_techfixes_def demo_build_template_path_def work_fs_def
  ro_fs_def tree_fs_def anim_file_def anim_row_def comp_row_def
  copied_ok_def demo_review_def review_version_def review_config_def


section \<open>The claims\<close>

subsection \<open>C1: a failed item and the batch\<close>

text \<open>
  Claim C1. In \<^verbatim>\<open>Publish.publish\<close>, no mutation of an item whose overall copy status is
  false reaches the flushed batch, its PublishedFile create requests included. The code
  keeps \<^verbatim>\<open>publish_batch_data\<close> across the items, so the create request of a slot that was
  copied before another slot of the same task failed is submitted with the next task
  that succeeds. Here the animation task fails on its missing movie after its Maya file
  was copied, the composition task publishes no file, and the batch of the run holds the
  PublishedFile create request of the animation task.
\<close>

theorem publish_submits_file_of_failed_item:
  "fst (publish (demo_publish [] [anim_task, comp_task]) work_fs) =
     ([anim_row, comp_row],
      [Find ''Shot'', Find ''Version'', Find ''Shot'',
       Batch [Update ''Task'' 2 (Some ''pub''), Create ''PublishedFile'' anim_file]])
   \<and> pf_task anim_file = task_id anim_task
   \<and> rd_Success anim_row = ''NO''"
  by (simp add: publish_defs copy_defs demo_defs simple_os_sel eval_nat_numeral)

subsection \<open>C2: the originating task of a techfix\<close>

text \<open>
  Claim C2. In \<^verbatim>\<open>Publish.publish\<close>, for a techfix item whose copies succeeded and whose
  originating task has status \<open>tfhl\<close>, the update of the originating task to \<open>thdn\<close> is
  queued if and only if the number \<open>n\<close> of other pending techfix records of that task
  (same project, status not \<open>pub\<close>, \<open>omt\<close> or \<open>reject\<close>, the record of the current task
  excluded) is zero. The updates the techfix part queues are the update of the TechFixData
  record and, for \<open>n = 0\<close> only, that of the originating task; the rest of the body only
  appends to them, and a Task update it appends is for the published task itself or
  comes from \<^verbatim>\<open>publish_batch_data\<close>.
\<close>

theorem techfix_done_iff_none_pending:
  assumes ok: "overall_status A"
    and recs: "find_techfix_of_task (pb_sg_obj self) (task_id t) (pb_project_id self) = recs"
      "recs \<noteq> []"
    and src: "tf_from (last recs) = Some from_id"
    and froms: "find_task_by_id (pb_sg_obj self) from_id = froms" "froms \<noteq> []"
    and held: "task_status (last froms) = ''tfhl''"
    and n: "n = length (find_pending_techfixes (pb_sg_obj self) from_id (task_id t)
                         (pb_project_id self))"
  shows "\<exists>st'. publish_cascade self t e True next_status rd A
                 = publish_asset self t e next_status rd st'
           \<and> batch_data st' = batch_data (sl_st A)
               @ Update ''CustomEntity04'' (tf_id (last recs)) (Some next_status)
               # (if n = 0 then [Update ''Task'' from_id (Some ''thdn'')] else [])
           \<and> (Update ''Task'' from_id (Some ''thdn'')
                 \<in> set (drop (length (batch_data (sl_st A))) (batch_data st')) \<longleftrightarrow> n = 0)
           \<and> (\<exists>ops. batch_data (snd (publish_cascade self t e True next_status rd A))
                      = batch_data st' @ ops
                  \<and> (\<forall>x. Update ''Task'' from_id x \<in> set ops
                         \<longrightarrow> from_id = task_id t
                             \<or> Update ''Task'' from_id x
                                 \<in> set (publish_batch_data (sl_st A))))"
proof -
  let ?st' = "publish_from_task self t from_id ''tfhl''
      (called (Find ''Task'')
         (append_batch [Update ''CustomEntity04'' (tf_id (last recs)) (Some next_status)]
            (called (Find ''CustomEntity04'') (sl_st A))))"
  have c: "publish_cascade self t e True next_status rd A
      = publish_asset self t e next_status rd ?st'"
    using ok recs src froms held by (simp add: publish_cascade_def publish_techfix_def Let_def)
  have b: "batch_data ?st' = batch_data (sl_st A)
               @ Update ''CustomEntity04'' (tf_id (last recs)) (Some next_status)
               # (if n = 0 then [Update ''Task'' from_id (Some ''thdn'')] else [])"
    using n by (simp add: publish_from_task_def Let_def append_batch_def called_def)
  have m: "Update ''Task'' from_id (Some ''thdn'')
                 \<in> set (drop (length (batch_data (sl_st A))) (batch_data ?st')) \<longleftrightarrow> n = 0"
    by (simp add: b)
  obtain fl st'' where r: "publish_asset self t e next_status rd ?st' = (fl, st'')"
    by (cases "publish_asset self t e next_status rd ?st'")
  have p: "publish_batch_data ?st' = publish_batch_data (sl_st A)"
    by (simp add: publish_from_task_def Let_def append_batch_def called_def)
  from publish_asset_appends[OF r] c r p
  have "\<exists>ops. batch_data (snd (publish_cascade self t e True next_status rd A))
                      = batch_data ?st' @ ops
              \<and> (\<forall>x. Update ''Task'' from_id x \<in> set ops
                     \<longrightarrow> from_id = task_id t
                         \<or> Update ''Task'' from_id x \<in> set (publish_batch_data (sl_st A)))"
    by simp blast
  with c b m show ?thesis by blast
qed

lemma demo_techfix_queries:
  "find_techfix_of_task (pb_sg_obj (demo_publish (pending_techfixes k @ [own_techfix]) ts))
     (task_id fix_task) (pb_project_id (demo_publish (pending_techfixes k @ [own_techfix]) ts))
   = [own_techfix]"
  "find_task_by_id (pb_sg_obj (demo_publish fixes ts)) 1 = [held_task]"
  "length (find_pending_techfixes
     (pb_sg_obj (demo_publish (pending_techfixes k @ [own_techfix]) ts)) 1 (task_id fix_task)
     (pb_project_id (demo_publish (pending_techfixes k @ [own_techfix]) ts))) = k"
  by (simp_all add: find_techfix_of_task_def find_task_by_id_def find_pending_techfixes_def
      demo_publish_def demo_store_def pending_techfixes_def own_techfix_def fix_task_def
      held_task_def step_task_def filter_map comp_def)

text \<open>The techfix task with no, one and three other pending techfix records.\<close>

theorem techfix_done_iff_none_pending_witness:
  "(\<exists>st'. publish_cascade (demo_publish (pending_techfixes 0 @ [own_techfix]) [fix_task])
            fix_task shot_s1 True ''pub'' (task_row fix_task) copied_ok
          = publish_asset (demo_publish (pending_techfixes 0 @ [own_techfix]) [fix_task])
              fix_task shot_s1 ''pub'' (task_row fix_task) st'
        \<and> batch_data st' =
            [Update ''CustomEntity04'' 30 (Some ''pub''), Update ''Task'' 1 (Some ''thdn'')])
   \<and> (\<exists>st'. publish_cascade (demo_publish (pending_techfixes 1 @ [own_techfix]) [fix_task])
            fix_task shot_s1 True ''pub'' (task_row fix_task) copied_ok
          = publish_asset (demo_publish (pending_techfixes 1 @ [own_techfix]) [fix_task])
              fix_task shot_s1 ''pub'' (task_row fix_task) st'
        \<and> batch_data st' = [Update ''CustomEntity04'' 30 (Some ''pub'')])
   \<and> (\<exists>st'. publish_cascade (demo_publish (pending_techfixes 3 @ [own_techfix]) [fix_task])
            fix_task shot_s1 True ''pub'' (task_row fix_task) copied_ok
          = publish_asset (demo_publish (pending_techfixes 3 @ [own_techfix]) [fix_task])
              fix_task shot_s1 ''pub'' (task_row fix_task) st'
        \<and> batch_data st' = [Update ''CustomEntity04'' 30 (Some ''pub'')])"
proof -
  have ok: "overall_status copied_ok" by (simp add: copied_ok_def)
  have src: "tf_from (last [own_techfix]) = Some 1" by (simp add: own_techfix_def)
  have held: "task_status (last [held_task]) = ''tfhl''"
    by (simp add: held_task_def step_task_def)
  have start: "batch_data (sl_st copied_ok) = []" "tf_id own_techfix = 30"
    by (simp_all add: copied_ok_def publish_init_def own_techfix_def)
  note w = techfix_done_iff_none_pending[OF ok demo_techfix_queries(1) _ src
      demo_techfix_queries(2) _ held demo_techfix_queries(3)[symmetric],
      where e = shot_s1 and next_status = "''pub''" and rd = "task_row fix_task"]
  have w0: "\<exists>st'. publish_cascade (demo_publish (pending_techfixes 0 @ [own_techfix]) [fix_task])
            fix_task shot_s1 True ''pub'' (task_row fix_task) copied_ok
          = publish_asset (demo_publish (pending_techfixes 0 @ [own_techfix]) [fix_task])
              fix_task shot_s1 ''pub'' (task_row fix_task) st'
        \<and> batch_data st' =
            [Update ''CustomEntity04'' 30 (Some ''pub''), Update ''Task'' 1 (Some ''thdn'')]"
    using w[of 0 "[fix_task]"] by (simp add: start) blast
  have w1: "\<exists>st'. publish_cascade (demo_publish (pending_techfixes 1 @ [own_techfix]) [fix_task])
            fix_task shot_s1 True ''pub'' (task_row fix_task) copied_ok
          = publish_asset (demo_publish (pending_techfixes 1 @ [own_techfix]) [fix_task])
              fix_task shot_s1 ''pub'' (task_row fix_task) st'
        \<and> batch_data st' = [Update ''CustomEntity04'' 30 (Some ''pub'')]"
    using w[of 1 "[fix_task]"] by (simp add: start) blast
  have w3: "\<exists>st'. publish_cascade (demo_publish (pending_techfixes 3 @ [own_techfix]) [fix_task])
            fix_task shot_s1 True ''pub'' (task_row fix_task) copied_ok
          = publish_asset (demo_publish (pending_techfixes 3 @ [own_techfix]) [fix_task])
              fix_task shot_s1 ''pub'' (task_row fix_task) st'
        \<and> batch_data st' = [Update ''CustomEntity04'' 30 (Some ''pub'')]"
    using w[of 3 "[fix_task]"] by (simp add: start) blast
  from w0 w1 w3 show ?thesis by (intro conjI)
qed

subsection \<open>C3: the lead path comes first\<close>



subsection \<open>C4: the override of the status map\<close>

text \<open>
  Claim C4. In \<^verbatim>\<open>Publish.publish\<close>, for an item that is a techfix task or whose
  configuration has no QC process, the entries \<open>tlapr\<close> to \<open>pub\<close> and \<open>movapr\<close> to \<open>pub\<close>
  are merged into the status map of the action before the current status is looked up,
  whatever the map held: the lookup and the rest of the body use the merged map, in which
  both keys give \<open>pub\<close> and every other key is as before.
\<close>

theorem override_merged_before_lookup:
  assumes "guarded_literal_eval (ce_statusConfig cfg) = Inr (Some sc)"
    and "guarded_literal_eval (ce_fileConfig cfg) = Inr tfc"
    and "task_pipelineStep t \<in> set (cfg_clientQcSteps (pb_config_data self))
         \<or> (sc \<noteq> [] \<and> \<not> falsy tfc)"
    and "map_of sc (pb_action self) = Some selected"
    and "is_techfix \<or> \<not> ce_qcProcess cfg"
  shows "publish_status self t e cfg is_techfix rd st =
           (if task_pipelineStep t \<notin> set (cfg_clientQcSteps (pb_config_data self))
               \<and> map_of (status_override selected) (task_status t) = None
            then (Next, append_report (rd\<lparr>rd_Reason := Text status_invalid\<rparr>) st)
            else publish_roles self t e cfg is_techfix (status_override selected) tfc rd st)
         \<and> map_of (status_override selected) ''tlapr'' = Some ''pub''
         \<and> map_of (status_override selected) ''movapr'' = Some ''pub''
         \<and> (\<forall>k. k \<noteq> ''tlapr'' \<and> k \<noteq> ''movapr''
                \<longrightarrow> map_of (status_override selected) k = map_of selected k)"
  using assms
  by (auto simp: publish_status_def Let_def falsy_def map_of_status_override)

text \<open>The techfix task has status \<open>tlapr\<close>, which the map of the animation configuration
  sends to \<open>rev\<close>: the plain lookup would succeed, and the merged map gives \<open>pub\<close>.\<close>

theorem override_merged_before_lookup_witness:
  "map_of [(''tlapr'', ''rev'')] (task_status fix_task) = Some ''rev''
   \<and> publish_status (demo_publish [own_techfix] [fix_task]) fix_task shot_s1 anim_config True
       (task_row fix_task) (publish_init work_fs)
     = publish_roles (demo_publish [own_techfix] [fix_task]) fix_task shot_s1 anim_config
         True (status_override [(''tlapr'', ''rev'')])
         (Some [(''rev'', [(''Maya File'', maya_slot), (''Mov File'', mov_slot)])])
         (task_row fix_task) (publish_init work_fs)
   \<and> map_of (status_override [(''tlapr'', ''rev'')]) (task_status fix_task) = Some ''pub''"
proof -
  have a: "guarded_literal_eval (ce_statusConfig anim_config)
      = Inr (Some [(''publish'', [(''tlapr'', ''rev'')])])"
    by (simp add: guarded_literal_eval_def anim_config_def)
  have b: "guarded_literal_eval (ce_fileConfig anim_config)
      = Inr (Some [(''rev'', [(''Maya File'', maya_slot), (''Mov File'', mov_slot)])])"
    by (simp add: guarded_literal_eval_def anim_config_def)
  have c: "task_pipelineStep fix_task
        \<in> set (cfg_clientQcSteps (pb_config_data (demo_publish [own_techfix] [fix_task])))
      \<or> ([(''publish'', [(''tlapr'', ''rev'')])] \<noteq> []
         \<and> \<not> falsy (Some [(''rev'', [(''Maya File'', maya_slot), (''Mov File'', mov_slot)])]))"
    by (simp add: falsy_def)
  have d: "map_of [(''publish'', [(''tlapr'', ''rev'')])]
      (pb_action (demo_publish [own_techfix] [fix_task])) = Some [(''tlapr'', ''rev'')]"
    by (simp add: demo_publish_def)
  have s: "task_status fix_task = ''tlapr''" by (simp add: fix_task_def step_task_def)
  from override_merged_before_lookup[OF a b c d, of True shot_s1 "task_row fix_task"
      "publish_init work_fs"]
  show ?thesis by (simp add: s)
qed

subsection \<open>C5: a current status that the map lacks\<close>

text \<open>
  Claim C5. In \<^verbatim>\<open>Publish.publish\<close>, a current status that the status map lacks fails the
  item with the status-invalid reason unless the pipeline step is a client QC step, for
  which the absence is tolerated and the item goes on. For a client QC step the code
  skips the check and then subscripts the map with the current status (line 296), which
  raises \<open>KeyError\<close>: the run ends there, the report is the one row of the exception and
  no batch is sent, although the composition task before the client QC task had
  succeeded.
\<close>

theorem client_qc_absent_status_aborts_run:
  "task_pipelineStep qc_task \<in> set (cfg_clientQcSteps publish_cfg)
   \<and> map_of [(''tlapr'', ''pub'')] (task_status qc_task) = None
   \<and> publish (demo_publish [] [comp_task, qc_task]) work_fs =
       ((fatal_report (KeyError ''wip''), [Find ''Shot'', Find ''Shot'']), work_fs)"
  by (simp add: publish_defs copy_defs demo_defs simple_os_sel eval_nat_numeral)

subsection \<open>C6: one batch call, after the loop\<close>


subsection \<open>C7: the mode of an overwritten destination\<close>

text \<open>
  Claim C7. \<^verbatim>\<open>copy\<close> with \<^verbatim>\<open>overwrite=True\<close> on an existing destination that is not writable
  makes it writable first and restores its original mode after the copy. The code stores
  the mode in \<^verbatim>\<open>original_mode\<close> and restores it only if \<^verbatim>\<open>"originalMode"\<close> is a key of
  \<^verbatim>\<open>locals()\<close>, which it never is. Here the destination has mode 0o444 (292) and is not
  writable, the copy succeeds, and the destination is left with mode 0o644 (420).
\<close>

theorem copy_leaves_destination_writable:
  "os_access_w simple_os ''/p/a.ma'' ro_fs = False
   \<and> path_stat_mode simple_os ''/p/a.ma'' ro_fs = Inr 292
   \<and> fst (copy simple_os ''/w/a.ma'' ''/p/a.ma'' [] True True ro_fs) = (True, [])
   \<and> path_stat_mode simple_os ''/p/a.ma''
        (snd (copy simple_os ''/w/a.ma'' ''/p/a.ma'' [] True True ro_fs)) = Inr 420"
  by (simp add: copy_defs simple_os_sel ro_fs_def Let_def)


subsection \<open>C8: no matching configuration\<close>

text \<open>
  Claim C8, as stated: in \<^verbatim>\<open>Publish.publish\<close> and \<^verbatim>\<open>Review.update_version\<close>, an item that
  no configuration record matches gets a row with the config-missing reason. In
  \<^verbatim>\<open>publish\<close> the record of the Shot or Asset is looked up first (lines 187 to 199): a task
  whose shot is not found gets the row of that check, whether a configuration matches it
  or not.
\<close>

theorem missing_config_other_reason_counterexample:
  "match_task_config (pb_task_config_data (demo_publish [] [lost_task])) lost_task
     (snd (config_task_name (task_taskName lost_task) (task_splitType lost_task))) = []
   \<and> publish_item (demo_publish [] [lost_task]) lost_task (publish_init work_fs) =
       (Next,
        append_report ((task_row lost_task)\<lparr>rd_Reason := Text entity_missing\<rparr>)
          (called (Find ''Shot'') (publish_init work_fs)))
   \<and> entity_missing \<noteq> config_missing"
  by (simp add: publish_item_def find_entity_def match_task_config_def config_task_name_def
      endswith_def demo_publish_def demo_store_def anim_config_def bare_config_def
      lost_task_def step_task_def shot_s1_def task_row_def entity_missing_def
      config_missing_def Let_def)

text \<open>
  Claim C8, amended: in \<^verbatim>\<open>Publish.publish\<close>, for a task whose Shot or Asset record is
  found, and in \<^verbatim>\<open>Review.update_version\<close>, for a version whose task is in \<^verbatim>\<open>self.tasks\<close>: if
  no configuration record matches the entity type, the pipeline step and the normalized
  task name, the item gets a row with success \<open>NO\<close> and the config-missing reason, the
  batch lists are as before, and the loop goes on with the next item.
\<close>

theorem missing_config_fails_item:
  "(find_entity (pb_sg_obj self) (link_type (task_link t)) (link_name (task_link t))
        (pb_project_name self) \<noteq> []
     \<and> match_task_config (pb_task_config_data self) t
         (snd (config_task_name (task_taskName t) (task_splitType t))) = []
     \<longrightarrow> (\<exists>st'. publish_item self t st = (Next, st')
            \<and> report_list st' =
                report_list st @ [(task_row t)\<lparr>rd_Reason := Text config_missing\<rparr>]
            \<and> batch_data st' = batch_data st
            \<and> publish_batch_data st' = publish_batch_data st
            \<and> for_each (publish_item self) (t # ts) st = for_each (publish_item self) ts st'))
   \<and> (ver_sg_task v = Some tid \<and> map_of (rv_tasks rself) tid = Some rt
     \<and> match_task_config (rv_task_config_data rself) rt
         (snd (config_task_name (task_taskName rt) (task_splitType rt))) = []
     \<longrightarrow> (\<exists>st'. review_item rself (version_id, v) rst = (Next, st')
            \<and> report_list st' =
                report_list rst @ [(new_row v rt)\<lparr>rd_Reason := Text config_missing\<rparr>]
            \<and> batch_data st' = batch_data rst
            \<and> for_each (review_item rself) ((version_id, v) # vs) rst
                = for_each (review_item rself) vs st'))"
  by (auto simp: publish_item_def review_item_def review_task_def Let_def task_row_def
      new_row_def append_report_def called_def split: prod.splits)

text \<open>The layout task of shot \<open>s1\<close>: the shot is in the store, the task is in
  \<^verbatim>\<open>self.tasks\<close>, and no configuration is for the Layout step.\<close>

theorem missing_config_fails_item_witness:
  "(\<exists>st'. publish_item (demo_publish [] [layout_task]) layout_task (publish_init work_fs)
            = (Next, st')
        \<and> report_list st' = [(task_row layout_task)\<lparr>rd_Reason := Text config_missing\<rparr>]
        \<and> batch_data st' = []
        \<and> publish_batch_data st' = [])
   \<and> (\<exists>st'. review_item demo_review (16, review_version 16 6) init_state = (Next, st')
        \<and> report_list st' =
            [(new_row (review_version 16 6) layout_task)\<lparr>rd_Reason := Text config_missing\<rparr>]
        \<and> batch_data st' = [])"
proof -
  have e: "find_entity (pb_sg_obj (demo_publish [] [layout_task]))
      (link_type (task_link layout_task)) (link_name (task_link layout_task))
      (pb_project_name (demo_publish [] [layout_task])) \<noteq> []"
    by (simp add: find_entity_def demo_publish_def demo_store_def layout_task_def
        step_task_def link_s1_def shot_s1_def)
  have c: "match_task_config (pb_task_config_data (demo_publish [] [layout_task])) layout_task
      (snd (config_task_name (task_taskName layout_task) (task_splitType layout_task))) = []"
    by (simp add: match_task_config_def config_task_name_def endswith_def demo_publish_def
        anim_config_def bare_config_def layout_task_def step_task_def)
  have v: "ver_sg_task (review_version 16 6) = Some 6"
    "map_of (rv_tasks demo_review) 6 = Some layout_task"
    by (simp_all add: review_version_def demo_review_def)
  have rc: "match_task_config (rv_task_config_data demo_review) layout_task
      (snd (config_task_name (task_taskName layout_task) (task_splitType layout_task))) = []"
    by (simp add: match_task_config_def config_task_name_def endswith_def demo_review_def
        review_config_def layout_task_def step_task_def)
  have i: "report_list (publish_init work_fs) = []" "batch_data (publish_init work_fs) = []"
    "publish_batch_data (publish_init work_fs) = []"
    "report_list init_state = []" "batch_data init_state = []"
    by (simp_all add: publish_init_def init_state_def)
  note w = missing_config_fails_item[of "demo_publish [] [layout_task]" layout_task
      "publish_init work_fs" "[]" "review_version 16 6" 6 demo_review layout_task 16
      init_state "[]"]
  from w e c have p: "\<exists>st'. publish_item (demo_publish [] [layout_task]) layout_task
        (publish_init work_fs) = (Next, st')
      \<and> report_list st' = report_list (publish_init work_fs)
            @ [(task_row layout_task)\<lparr>rd_Reason := Text config_missing\<rparr>]
      \<and> batch_data st' = batch_data (publish_init work_fs)
      \<and> publish_batch_data st' = publish_batch_data (publish_init work_fs)"
    by blast
  from w v rc have r: "\<exists>st'. review_item demo_review (16, review_version 16 6) init_state
        = (Next, st')
      \<and> report_list st' = report_list init_state
            @ [(new_row (review_version 16 6) layout_task)\<lparr>rd_Reason := Text config_missing\<rparr>]
      \<and> batch_data st' = batch_data init_state"
    by blast
  from p r show ?thesis by (simp add: i)
qed

subsection \<open>C9: the result of copy\<close>

text \<open>
  Claim C9. \<^verbatim>\<open>copy\<close> returns a pair of status and message for every input and every
  behaviour of the file system: an exception raised in its body gives status \<open>False\<close> and
  the text of the exception as message; a body that ends without exception gives status
  \<open>True\<close> and the empty message; status \<open>True\<close> is returned only when the file copy or the
  tree copy ran to its end, and the file system returned is the one that copy left. In
  particular a source that does not exist, an existing destination without overwrite,
  and a directory source over an existing destination on which \<^verbatim>\<open>rmtree\<close> raises (a file)
  give status \<open>False\<close> with the text of the error.
\<close>

theorem copy_reports_every_error:
  "(\<forall>e L. copy_try os source destination ignores overwrite metadata (copy_entry fs0)
              = (Some e, L)
           \<longrightarrow> copy os source destination ignores overwrite metadata fs0
               = ((False, exn_str e), cl_fs L))
   \<and> (\<forall>L. copy_try os source destination ignores overwrite metadata (copy_entry fs0)
              = (None, L)
           \<longrightarrow> copy os source destination ignores overwrite metadata fs0
               = ((True, []), cl_fs L))
   \<and> (fst (fst (copy os source destination ignores overwrite metadata fs0))
      \<longrightarrow> (\<exists>fs1. copied os source destination ignores metadata fs1
                  (snd (copy os source destination ignores overwrite metadata fs0))))
   \<and> (path_exists os (convert_to_unc os source) fs0 = Inr False
      \<longrightarrow> copy os source destination ignores overwrite metadata fs0
          = ((False, ''Source path does not exist.''), fs0))
   \<and> (path_exists os (convert_to_unc os source) fs0 = Inr True
      \<and> path_exists os (convert_to_unc os destination) fs0 = Inr True \<and> \<not> overwrite
      \<longrightarrow> copy os source destination ignores overwrite metadata fs0
          = ((False, ''Destination already exists. Overwrite is set to False.''), fs0))
   \<and> (\<forall>L1 e fs2.
         path_exists os (convert_to_unc os source) fs0 = Inr True
         \<and> path_exists os (convert_to_unc os destination) fs0 = Inr True \<and> overwrite
         \<and> make_writable os (convert_to_unc os destination) (copy_entry fs0) = (None, L1)
         \<and> path_is_file os (convert_to_unc os source) (cl_fs L1) = Inr False
         \<and> shutil_rmtree os (convert_to_unc os destination) (cl_fs L1) = (Some e, fs2)
         \<longrightarrow> copy os source destination ignores overwrite metadata fs0
             = ((False, exn_str e), fs2))"
proof -
  obtain r L where t: "copy_try os source destination ignores overwrite metadata
      (copy_entry fs0) = (r, L)"
    by (cases "copy_try os source destination ignores overwrite metadata (copy_entry fs0)")
  have o: "(case r of
            None \<Rightarrow> cl_status L \<and> cl_msg L = []
              \<and> (\<exists>fs1. copied os source destination ignores metadata fs1 (cl_fs L))
          | Some e \<Rightarrow> \<not> cl_status L)"
    by (rule copy_try_outcome[OF t]) (simp_all add: copy_entry_def)
  have raised: "\<forall>e L'. (r, L) = (Some e, L')
      \<longrightarrow> copy os source destination ignores overwrite metadata fs0
          = ((False, exn_str e), cl_fs L')"
    using t o by (auto simp: copy_def)
  have ended: "\<forall>L'. (r, L) = (None, L')
      \<longrightarrow> copy os source destination ignores overwrite metadata fs0 = ((True, []), cl_fs L')"
    using t o by (auto simp: copy_def)
  have only: "fst (fst (copy os source destination ignores overwrite metadata fs0))
      \<longrightarrow> (\<exists>fs1. copied os source destination ignores metadata fs1
                  (snd (copy os source destination ignores overwrite metadata fs0)))"
    using t o by (cases r) (auto simp: copy_def)
  have missing: "path_exists os (convert_to_unc os source) fs0 = Inr False
      \<longrightarrow> copy os source destination ignores overwrite metadata fs0
          = ((False, ''Source path does not exist.''), fs0)"
    by (simp add: copy_def copy_try_def copy_entry_def raise_msg_def Let_def)
  have exists: "path_exists os (convert_to_unc os source) fs0 = Inr True
      \<and> path_exists os (convert_to_unc os destination) fs0 = Inr True \<and> \<not> overwrite
      \<longrightarrow> copy os source destination ignores overwrite metadata fs0
          = ((False, ''Destination already exists. Overwrite is set to False.''), fs0)"
    by (simp add: copy_def copy_try_def copy_entry_def copy_existing_def raise_msg_def Let_def)
  have tree: "\<forall>L1 e fs2.
         path_exists os (convert_to_unc os source) fs0 = Inr True
         \<and> path_exists os (convert_to_unc os destination) fs0 = Inr True \<and> overwrite
         \<and> make_writable os (convert_to_unc os destination) (copy_entry fs0) = (None, L1)
         \<and> path_is_file os (convert_to_unc os source) (cl_fs L1) = Inr False
         \<and> shutil_rmtree os (convert_to_unc os destination) (cl_fs L1) = (Some e, fs2)
         \<longrightarrow> copy os source destination ignores overwrite metadata fs0
             = ((False, exn_str e), fs2)"
  proof (intro allI impI)
    fix L1 e fs2
    assume a: "path_exists os (convert_to_unc os source) fs0 = Inr True
         \<and> path_exists os (convert_to_unc os destination) fs0 = Inr True \<and> overwrite
         \<and> make_writable os (convert_to_unc os destination) (copy_entry fs0) = (None, L1)
         \<and> path_is_file os (convert_to_unc os source) (cl_fs L1) = Inr False
         \<and> shutil_rmtree os (convert_to_unc os destination) (cl_fs L1) = (Some e, fs2)"
    then have k: "cl_status L1 = False"
      using make_writable_keeps[of os "convert_to_unc os destination" "copy_entry fs0" None L1]
      by (simp add: copy_entry_def)
    from a k show "copy os source destination ignores overwrite metadata fs0
             = ((False, exn_str e), fs2)"
      by (simp add: copy_def copy_try_def copy_entry_def copy_existing_def copy_over_def
          and_then_def run_fs_def Let_def)
  qed
  from raised ended only missing exists tree t show ?thesis by simp
qed

text \<open>A source that does not exist, and the work directory copied over the published
  file.\<close>

theorem copy_reports_every_error_witness:
  "copy simple_os ''/w/none'' ''/p/f'' [] True True tree_fs
     = ((False, ''Source path does not exist.''), tree_fs)
   \<and> path_is_file simple_os ''/w/d'' tree_fs = Inr False
   \<and> path_is_file simple_os ''/p/f'' tree_fs = Inr True
   \<and> copy simple_os ''/w/d'' ''/p/f'' [] True True tree_fs
     = ((False, ''Not a directory''), tree_fs)"
proof -
  have u: "convert_to_unc simple_os ''/w/none'' = ''/w/none''"
    "convert_to_unc simple_os ''/w/d'' = ''/w/d''"
    "convert_to_unc simple_os ''/p/f'' = ''/p/f''"
    by (simp_all add: convert_to_unc_def)
  have m: "path_exists simple_os ''/w/none'' tree_fs = Inr False"
    by (simp add: simple_os_sel tree_fs_def)
  have x: "path_exists simple_os ''/w/d'' tree_fs = Inr True"
    "path_exists simple_os ''/p/f'' tree_fs = Inr True"
    by (simp_all add: simple_os_sel tree_fs_def)
  have w: "make_writable simple_os ''/p/f'' (copy_entry tree_fs) = (None, copy_entry tree_fs)"
    by (simp add: make_writable_def simple_os_sel tree_fs_def copy_entry_def mode_bits)
  have f: "path_is_file simple_os ''/w/d'' tree_fs = Inr False"
    "path_is_file simple_os ''/p/f'' tree_fs = Inr True"
    by (simp_all add: simple_os_sel tree_fs_def)
  have r: "shutil_rmtree simple_os ''/p/f'' tree_fs = (Some (OSError ''Not a directory''), tree_fs)"
    by (simp add: simple_os_sel tree_fs_def)
  have c: "cl_fs (copy_entry tree_fs) = tree_fs" by (simp add: copy_entry_def)
  from copy_reports_every_error[of simple_os "''/w/none''" "''/p/f''" "[]" True True tree_fs]
    m u
  have one: "copy simple_os ''/w/none'' ''/p/f'' [] True True tree_fs
     = ((False, ''Source path does not exist.''), tree_fs)" by simp
  from copy_reports_every_error[of simple_os "''/w/d''" "''/p/f''" "[]" True True tree_fs]
  have "path_exists simple_os (convert_to_unc simple_os ''/w/d'') tree_fs = Inr True
         \<and> path_exists simple_os (convert_to_unc simple_os ''/p/f'') tree_fs = Inr True \<and> True
         \<and> make_writable simple_os (convert_to_unc simple_os ''/p/f'') (copy_entry tree_fs)
             = (None, copy_entry tree_fs)
         \<and> path_is_file simple_os (convert_to_unc simple_os ''/w/d'')
             (cl_fs (copy_entry tree_fs)) = Inr False
         \<and> shutil_rmtree simple_os (convert_to_unc simple_os ''/p/f'')
             (cl_fs (copy_entry tree_fs)) = (Some (OSError ''Not a directory''), tree_fs)
         \<longrightarrow> copy simple_os ''/w/d'' ''/p/f'' [] True True tree_fs
             = ((False, exn_str (OSError ''Not a directory'')), tree_fs)"
    by blast
  with u x w f r c have two: "copy simple_os ''/w/d'' ''/p/f'' [] True True tree_fs
     = ((False, ''Not a directory''), tree_fs)" by simp
  from one two f show ?thesis by simp
qed

subsection \<open>C10: the review path does not check the status map\<close>

text \<open>
  Claim C10, as stated: in \<^verbatim>\<open>Review.update_version\<close>, a version whose task passes the
  role-assignment and the lead or supervisor checks and whose current status is not a
  key of the status map of the action is reported with success \<open>YES\<close>. A techfix task is
  looked up in the TechFixData records after these checks (lines 377 to 403): without a
  record the item is reported with success \<open>NO\<close> and nothing is queued.
\<close>

theorem review_techfix_without_record_counterexample:
  "reaches_authorize demo_review (review_version 13 3)
     (step_task 3 ''Comp'' ''Comp_TechFix'' ''rev'') True [(''tlrev'', ''tlapr'')]
   \<and> fst (rv_validate_role_assignments demo_review
            (step_task 3 ''Comp'' ''Comp_TechFix'' ''rev'') (rv_valid_roles demo_review))
   \<and> review_permission (rv_config_data demo_review) (rv_current_user demo_review)
       (step_task 3 ''Comp'' ''Comp_TechFix'' ''rev'') (ver_status (review_version 13 3))
       = Inr Allowed
   \<and> map_of [(''tlrev'', ''tlapr'')] (task_status (step_task 3 ''Comp'' ''Comp_TechFix'' ''rev''))
       = None
   \<and> review_item demo_review (13, review_version 13 3) init_state =
       (Next,
        \<lparr>report_list =
           [\<lparr>rd_item = ''s1_v1'', rd_Task = ''Comp'', rd_Success = ''NO'',
             rd_Reason = Text ''Selected Task TechFixData Record is not available in SG''\<rparr>],
         batch_data = [], sg_calls = [Find ''CustomEntity04'']\<rparr>)"
  by (simp add: review_defs demo_review_def review_version_def review_config_def
      step_task_def link_s1_def publish_cfg_def demo_store_def)

text \<open>
  Claim C10, amended: in \<^verbatim>\<open>Review.update_version\<close>, for a version whose task passes the
  role-assignment and the lead or supervisor checks and, if it is a techfix task, has a
  TechFixData record: when the current status is not a key of the status map of the
  action, the item is still reported with success \<open>YES\<close>, and the Task and the Version
  update (after the update of the TechFixData record of a techfix task) are queued with
  the status value \<open>None\<close>.
\<close>

theorem review_ignores_status_map:
  assumes reach: "reaches_authorize self v t is_techfix status_map"
    and roles: "fst (rv_validate_role_assignments self t (rv_valid_roles self))"
    and allowed: "review_permission (rv_config_data self) (rv_current_user self) t
                    (ver_status v) = Inr Allowed"
    and absent: "map_of status_map (task_status t) = None"
    and entry: "is_techfix \<longrightarrow>
                  find_techfix_of_task (rv_sg_obj self) (task_id t) (rv_project_id self) \<noteq> []"
  shows "\<exists>st'. review_item self (version_id, v) st = (Next, st')
           \<and> report_list st' = report_list st @ [(new_row v t)\<lparr>rd_Success := ''YES''\<rparr>]
           \<and> batch_data st' = batch_data st
               @ (if is_techfix
                  then [Update ''CustomEntity04''
                          (tf_id (last (find_techfix_of_task (rv_sg_obj self) (task_id t)
                                          (rv_project_id self)))) None]
                  else [])
               @ [Update ''Task'' (task_id t) None, Update ''Version'' version_id None]"
  using roles allowed absent entry
  by (auto simp: review_item_authorize[OF reach] review_authorize_def review_update_def
      review_queue_def Let_def append_report_def append_batch_def called_def
      split: prod.splits)

text \<open>The composition task in review: its status \<open>rev\<close> is valid for the lead and is not
  a key of the status map of the action.\<close>

theorem review_ignores_status_map_witness:
  "\<exists>st'. review_item demo_review (12, review_version 12 2) init_state = (Next, st')
     \<and> report_list st' =
         [(new_row (review_version 12 2) (step_task 2 ''Comp'' ''Comp'' ''rev''))
            \<lparr>rd_Success := ''YES''\<rparr>]
     \<and> batch_data st' = [Update ''Task'' 2 None, Update ''Version'' 12 None]"
proof -
  let ?t = "step_task 2 ''Comp'' ''Comp'' ''rev''"
  have reach: "reaches_authorize demo_review (review_version 12 2) ?t False
      [(''tlrev'', ''tlapr'')]"
    by (simp add: reaches_authorize_def demo_review_def review_version_def review_config_def
        step_task_def link_s1_def config_task_name_def endswith_def match_task_config_def)
  have roles: "fst (rv_validate_role_assignments demo_review ?t (rv_valid_roles demo_review))"
    by (simp add: demo_review_def)
  have allowed: "review_permission (rv_config_data demo_review) (rv_current_user demo_review)
      ?t (ver_status (review_version 12 2)) = Inr Allowed"
    by (simp add: review_permission_def lead_path_def lead_roles_def user_is_def
        lead_checks_def demo_review_def publish_cfg_def step_task_def review_version_def)
  have absent: "map_of [(''tlrev'', ''tlapr'')] (task_status ?t) = None"
    by (simp add: step_task_def)
  have entry: "False \<longrightarrow> find_techfix_of_task (rv_sg_obj demo_review) (task_id ?t)
      (rv_project_id demo_review) \<noteq> []" by simp
  have i: "report_list init_state = []" "batch_data init_state = []" "task_id ?t = 2"
    by (simp_all add: init_state_def step_task_def)
  from review_ignores_status_map[OF reach roles allowed absent entry, of 12 init_state]
  show ?thesis by (simp add: i)
qed


end
